theory Spec2Isabelle
  imports
    Main
    "HOL-Library.Word"
    "HOL-Library.AList"
    "HOL-Library.Sublist"
    "HOL-Library.Char_ord"
    "HOL-Library.List_Lexorder"
    "HOL-Library.Product_Lexorder"
begin

section \<open>JSON documents and the JavaScript operations applied to them\<close>

text \<open>
  The chaincode \<^verbatim>\<open>chaincodes/chaincode-kv-node/index.js\<close> stores every value as
  \<^verbatim>\<open>JSON.stringify\<close> of a JavaScript value and reads it back with \<^verbatim>\<open>JSON.parse\<close>.
  A stored document is represented by the value it parses to. Numbers are integers:
  fractions, exponents and the precision of doubles beyond \<open>2^53\<close> are outside the model.
  An object is the list of its own properties in insertion order, looked up with
  \<^const>\<open>map_of\<close>. The JavaScript value \<^verbatim>\<open>undefined\<close> is \<^const>\<open>None\<close> of
  the option type over these values.
\<close>

datatype json =
    JNull
  | JBool bool
  | JNum int
  | JStr string
  | JArr "json list"
  | JObj "(string \<times> json) list"

text \<open>
  Modelled from the spec: the key codec (\<^verbatim>\<open>createCompositeKey\<close> of the ledger library,
  not part of the repository) is injective on (object type, attributes), order
  preserving, and the encoding of a partial attribute list is a prefix of every full
  encoding that shares it. A composite key is the object type with its attribute list;
  the pair, ordered lexicographically, has these properties.
\<close>

type_synonym key = "string \<times> string list"

definition createCompositeKey :: "string \<Rightarrow> string list \<Rightarrow> key" where
  "createCompositeKey objectType attributes = (objectType, attributes)"

text \<open>
  \<^verbatim>\<open>new Error(message)\<close> carries the message of the source; the message of
  \<^verbatim>\<open>_readState\<close> interpolates the key and keeps it structured. \<open>TypeError\<close> is what
  the runtime throws on a property access of \<^verbatim>\<open>null\<close> or \<^verbatim>\<open>undefined\<close>, on a call
  of something that is not a function and, in strict mode, on a property assignment to a
  primitive; \<open>SyntaxError\<close> is what \<^verbatim>\<open>JSON.parse\<close> throws.
\<close>

datatype error =
    Error string
  | StateDoesNotExist key
  | TypeError
  | SyntaxError

definition andThen :: "error + 'a \<Rightarrow> ('a \<Rightarrow> error + 'b) \<Rightarrow> error + 'b" where
  "andThen m f = (case m of Inl e \<Rightarrow> Inl e | Inr x \<Rightarrow> f x)"

definition is_access_denied :: "error \<Rightarrow> bool" where
  "is_access_denied e = (case e of Error m \<Rightarrow> prefix ''Access denied: '' m | _ \<Rightarrow> False)"

subsection \<open>Truthiness and property access\<close>

fun truthy :: "json option \<Rightarrow> bool" where
  "truthy None = False"
| "truthy (Some JNull) = False"
| "truthy (Some (JBool b)) = b"
| "truthy (Some (JNum n)) = (n \<noteq> 0)"
| "truthy (Some (JStr s)) = (s \<noteq> [])"
| "truthy (Some (JArr xs)) = True"
| "truthy (Some (JObj fs)) = True"

definition js_or :: "json option \<Rightarrow> json option \<Rightarrow> json option" where
  "js_or a b = (if truthy a then a else b)"

text \<open>
  Reading a property by one of the names the chaincode uses (\<^verbatim>\<open>hospitalID\<close>,
  \<^verbatim>\<open>sensitivity\<close>, \<^verbatim>\<open>permissions\<close>, \<^verbatim>\<open>expiry\<close>, \<^verbatim>\<open>medical\<close>, \<^verbatim>\<open>policy\<close>,
  \<^verbatim>\<open>timestamp\<close>, \<^verbatim>\<open>details\<close>, \<^verbatim>\<open>patientId\<close>): none of them is an index,
  \<^verbatim>\<open>length\<close> or a prototype property, so arrays and primitives answer \<^verbatim>\<open>undefined\<close>.
\<close>

fun get_prop :: "json \<Rightarrow> string \<Rightarrow> error + json option" where
  "get_prop JNull p = Inl TypeError"
| "get_prop (JObj fs) p = Inr (map_of fs p)"
| "get_prop (JBool b) p = Inr None"
| "get_prop (JNum n) p = Inr None"
| "get_prop (JStr s) p = Inr None"
| "get_prop (JArr xs) p = Inr None"

text \<open>
  Property access on a value that may be \<^verbatim>\<open>undefined\<close>, as in
  \<^verbatim>\<open>log.details.patientId\<close>.
\<close>

fun get_prop_opt :: "json option \<Rightarrow> string \<Rightarrow> error + json option" where
  "get_prop_opt None p = Inl TypeError"
| "get_prop_opt (Some j) p = get_prop j p"

text \<open>
  Assigning a property and serialising afterwards. An object keeps the property unless
  the value is \<^verbatim>\<open>undefined\<close>, which \<^verbatim>\<open>JSON.stringify\<close> omits. An array accepts the
  assignment, but \<^verbatim>\<open>JSON.stringify\<close> writes only its elements. The file is in strict
  mode, so the assignment throws on \<^verbatim>\<open>null\<close> and on primitives.
\<close>

fun set_prop :: "json \<Rightarrow> string \<Rightarrow> json option \<Rightarrow> error + json" where
  "set_prop (JObj fs) p (Some v) = Inr (JObj (AList.update p v fs))"
| "set_prop (JObj fs) p None = Inr (JObj (AList.delete p fs))"
| "set_prop (JArr xs) p v = Inr (JArr xs)"
| "set_prop JNull p v = Inl TypeError"
| "set_prop (JBool b) p v = Inl TypeError"
| "set_prop (JNum n) p v = Inl TypeError"
| "set_prop (JStr s) p v = Inl TypeError"

subsection \<open>Strings\<close>

fun join :: "string \<Rightarrow> string list \<Rightarrow> string" where
  "join sep [] = []"
| "join sep [x] = x"
| "join sep (x # y # ys) = x @ sep @ join sep (y # ys)"

text \<open>\<^verbatim>\<open>String.prototype.includes\<close>: the argument occurs as a contiguous substring.\<close>

fun str_includes :: "string \<Rightarrow> string \<Rightarrow> bool" where
  "str_includes [] t = (t = [])"
| "str_includes (c # s) t = (if prefix t (c # s) then True else str_includes s t)"

text \<open>
  White space is the ECMAScript class that \<^verbatim>\<open>trim\<close> and \<^verbatim>\<open>parseInt\<close> strip
  (the characters \<^verbatim>\<open>WhiteSpace\<close> and \<^verbatim>\<open>LineTerminator\<close>): tab, line feed, vertical
  tab, form feed, carriage return, space, U+00A0, U+1680, U+2000 to U+200A, U+2028,
  U+2029, U+202F, U+205F, U+3000 and U+FEFF. Strings are byte strings in UTF-8, so a
  white-space character is one of these byte sequences.
\<close>

definition ws_sequences :: "string list" where
  "ws_sequences =
     [[CHR 0x09], [CHR 0x0A], [CHR 0x0B], [CHR 0x0C], [CHR 0x0D], [CHR 0x20],
      [CHR 0xC2, CHR 0xA0],
      [CHR 0xE1, CHR 0x9A, CHR 0x80],
      [CHR 0xE2, CHR 0x80, CHR 0x80], [CHR 0xE2, CHR 0x80, CHR 0x81],
      [CHR 0xE2, CHR 0x80, CHR 0x82], [CHR 0xE2, CHR 0x80, CHR 0x83],
      [CHR 0xE2, CHR 0x80, CHR 0x84], [CHR 0xE2, CHR 0x80, CHR 0x85],
      [CHR 0xE2, CHR 0x80, CHR 0x86], [CHR 0xE2, CHR 0x80, CHR 0x87],
      [CHR 0xE2, CHR 0x80, CHR 0x88], [CHR 0xE2, CHR 0x80, CHR 0x89],
      [CHR 0xE2, CHR 0x80, CHR 0x8A],
      [CHR 0xE2, CHR 0x80, CHR 0xA8], [CHR 0xE2, CHR 0x80, CHR 0xA9],
      [CHR 0xE2, CHR 0x80, CHR 0xAF],
      [CHR 0xE2, CHR 0x81, CHR 0x9F],
      [CHR 0xE3, CHR 0x80, CHR 0x80],
      [CHR 0xEF, CHR 0xBB, CHR 0xBF]]"

function drop_leading :: "string list \<Rightarrow> string \<Rightarrow> string" where
  "drop_leading ws s =
     (case List.find (\<lambda>w. w \<noteq> [] \<and> prefix w s) ws of
        None \<Rightarrow> s
      | Some w \<Rightarrow> drop_leading ws (drop (length w) s))"
  by pat_completeness auto
termination
  by (relation "measure (\<lambda>(ws, s). length s)") (auto simp: find_Some_iff prefix_def)

definition trim_start :: "string \<Rightarrow> string" where
  "trim_start s = drop_leading ws_sequences s"

definition trim :: "string \<Rightarrow> string" where
  "trim s = rev (drop_leading (map rev ws_sequences) (rev (drop_leading ws_sequences s)))"

text \<open>\<^verbatim>\<open>s.split(',')\<close>: the pieces between commas; one piece for a string without comma.\<close>

fun split_comma :: "string \<Rightarrow> string list" where
  "split_comma [] = [[]]"
| "split_comma (c # s) =
     (if c = CHR '','' then [] # split_comma s
      else (case split_comma s of [] \<Rightarrow> [[c]] | p # ps \<Rightarrow> (c # p) # ps))"

subsection \<open>Numbers from strings\<close>

definition digit_val :: "char \<Rightarrow> nat option" where
  "digit_val c =
     (let n = (of_char c :: nat) in
      if 48 \<le> n \<and> n \<le> 57 then Some (n - 48)
      else if 97 \<le> n \<and> n \<le> 102 then Some (n - 87)
      else if 65 \<le> n \<and> n \<le> 70 then Some (n - 55)
      else None)"

definition is_digit :: "nat \<Rightarrow> char \<Rightarrow> bool" where
  "is_digit radix c = (case digit_val c of None \<Rightarrow> False | Some d \<Rightarrow> d < radix)"

definition digits_value :: "nat \<Rightarrow> string \<Rightarrow> int" where
  "digits_value radix z =
     int (foldl (\<lambda>acc c. acc * radix + (case digit_val c of None \<Rightarrow> 0 | Some d \<Rightarrow> d)) 0 z)"

definition hex_prefixed :: "string \<Rightarrow> bool" where
  "hex_prefixed s = (prefix ''0x'' s \<or> prefix ''0X'' s)"

text \<open>
  \<^verbatim>\<open>parseInt(s)\<close> without radix: leading white space, a sign, \<^verbatim>\<open>0x\<close> for radix 16,
  then the longest run of digits; \<^verbatim>\<open>NaN\<close> (\<^const>\<open>None\<close>) when that run is empty.
\<close>

definition parseInt :: "string \<Rightarrow> int option" where
  "parseInt s =
     (let s1 = trim_start s;
          neg = prefix ''-'' s1;
          s2 = (if prefix ''-'' s1 \<or> prefix ''+'' s1 then drop 1 s1 else s1);
          radix = (if hex_prefixed s2 then 16 else 10);
          s3 = (if hex_prefixed s2 then drop 2 s2 else s2);
          z = takeWhile (is_digit radix) s3
      in if z = [] then None
         else Some (if neg then - digits_value radix z else digits_value radix z))"

text \<open>
  The conversion of a string to a number in a comparison: the trimmed string is empty
  (zero), a signed decimal integer, or an unsigned integer with prefix \<^verbatim>\<open>0x\<close>,
  \<^verbatim>\<open>0o\<close> or \<^verbatim>\<open>0b\<close>; otherwise \<^verbatim>\<open>NaN\<close>. Numerals with a fraction or an exponent
  are outside the integer model, as for \<^typ>\<open>json\<close> numbers.
\<close>

definition all_digits :: "nat \<Rightarrow> string \<Rightarrow> int option" where
  "all_digits radix z =
     (if z \<noteq> [] \<and> list_all (is_digit radix) z then Some (digits_value radix z) else None)"

definition string_to_number :: "string \<Rightarrow> int option" where
  "string_to_number s =
     (let t = trim s in
      if t = [] then Some 0
      else if hex_prefixed t then all_digits 16 (drop 2 t)
      else if prefix ''0o'' t \<or> prefix ''0O'' t then all_digits 8 (drop 2 t)
      else if prefix ''0b'' t \<or> prefix ''0B'' t then all_digits 2 (drop 2 t)
      else if prefix ''-'' t then map_option uminus (all_digits 10 (drop 1 t))
      else if prefix ''+'' t then all_digits 10 (drop 1 t)
      else all_digits 10 t)"

subsection \<open>Strings from values\<close>

function dec_of_nat :: "nat \<Rightarrow> string" where
  "dec_of_nat n =
     (if n < 10 then [char_of (48 + n)] else dec_of_nat (n div 10) @ [char_of (48 + n mod 10)])"
  by pat_completeness auto
termination
  by (relation "measure id") auto

definition dec_of_int :: "int \<Rightarrow> string" where
  "dec_of_int i = (if i < 0 then CHR ''-'' # dec_of_nat (nat (- i)) else dec_of_nat (nat i))"

text \<open>
  \<^verbatim>\<open>String(v)\<close>: an array joins its elements with commas, \<^verbatim>\<open>null\<close> elements as the
  empty string; a plain object is \<^verbatim>\<open>[object Object]\<close>.
\<close>

fun to_str :: "json \<Rightarrow> string" where
  "to_str JNull = ''null''"
| "to_str (JBool b) = (if b then ''true'' else ''false'')"
| "to_str (JNum n) = dec_of_int n"
| "to_str (JStr s) = s"
| "to_str (JArr xs) = join '','' (map (\<lambda>x. if x = JNull then [] else to_str x) xs)"
| "to_str (JObj fs) = ''[object Object]''"

text \<open>\<^verbatim>\<open>Number(v)\<close> as the relational operators apply it; \<^const>\<open>None\<close> is \<^verbatim>\<open>NaN\<close>.\<close>

fun to_number :: "json option \<Rightarrow> int option" where
  "to_number None = None"
| "to_number (Some JNull) = Some 0"
| "to_number (Some (JBool b)) = Some (if b then 1 else 0)"
| "to_number (Some (JNum n)) = Some n"
| "to_number (Some (JStr s)) = string_to_number s"
| "to_number (Some (JArr xs)) = string_to_number (to_str (JArr xs))"
| "to_number (Some (JObj fs)) = None"

definition js_gt :: "json option \<Rightarrow> int \<Rightarrow> bool" where
  "js_gt v n = (case to_number v of None \<Rightarrow> False | Some m \<Rightarrow> m > n)"

definition js_ge :: "json option \<Rightarrow> int \<Rightarrow> bool" where
  "js_ge v n = (case to_number v of None \<Rightarrow> False | Some m \<Rightarrow> m \<ge> n)"

definition js_le :: "json option \<Rightarrow> int \<Rightarrow> bool" where
  "js_le v n = (case to_number v of None \<Rightarrow> False | Some m \<Rightarrow> m \<le> n)"

text \<open>
  \<^verbatim>\<open>v.includes(x)\<close> for a string \<open>x\<close>: membership for an array, substring for a string;
  any other receiver has no callable \<^verbatim>\<open>includes\<close>.
\<close>

fun js_includes :: "json option \<Rightarrow> string \<Rightarrow> error + bool" where
  "js_includes (Some (JArr xs)) x = Inr (JStr x \<in> set xs)"
| "js_includes (Some (JStr s)) x = Inr (str_includes s x)"
| "js_includes (Some JNull) x = Inl TypeError"
| "js_includes (Some (JBool b)) x = Inl TypeError"
| "js_includes (Some (JNum n)) x = Inl TypeError"
| "js_includes (Some (JObj fs)) x = Inl TypeError"
| "js_includes None x = Inl TypeError"

text \<open>
  \<^verbatim>\<open>JSON.parse\<close> of an argument string: the argument is given as the value it parses
  to, \<^const>\<open>None\<close> for a string that is not JSON.
\<close>

definition JSON_parse :: "json option \<Rightarrow> error + json" where
  "JSON_parse text = (case text of None \<Rightarrow> Inl SyntaxError | Some v \<Rightarrow> Inr v)"

text \<open>The own enumerable properties copied by an object spread \<^verbatim>\<open>{...v}\<close>.\<close>

fun spread :: "json \<Rightarrow> (string \<times> json) list" where
  "spread (JObj fs) = fs"
| "spread (JArr xs) = zip (map dec_of_nat [0 ..< length xs]) xs"
| "spread (JStr s) = zip (map dec_of_nat [0 ..< length s]) (map (\<lambda>c. JStr [c]) s)"
| "spread JNull = []"
| "spread (JBool b) = []"
| "spread (JNum n) = []"

section \<open>World state and transaction context\<close>

text \<open>
  Modelled from the spec: the store API of the ledger (\<^verbatim>\<open>get\<close>, \<^verbatim>\<open>put\<close>,
  \<^verbatim>\<open>delete\<close>, scan by prefix) over a committed key-value store. The world state is
  a list of bindings from composite keys to documents; the store of a running ledger
  has one binding for a key (\<open>distinct_keys\<close>). \<^verbatim>\<open>putState\<close> overwrites the value of
  a key, and a range scan yields the bindings below a partial composite key in key order.
\<close>

type_synonym store = "(key \<times> json) list"

definition distinct_keys :: "store \<Rightarrow> bool" where
  "distinct_keys s = distinct (map fst s)"

definition getState :: "store \<Rightarrow> key \<Rightarrow> json option" where
  "getState s k = map_of s k"

definition putState :: "store \<Rightarrow> key \<Rightarrow> json \<Rightarrow> store" where
  "putState s k v = AList.update k v s"

definition deleteState :: "store \<Rightarrow> key \<Rightarrow> store" where
  "deleteState s k = AList.delete k s"

definition getStateByPartialCompositeKey :: "store \<Rightarrow> string \<Rightarrow> string list \<Rightarrow> (key \<times> json) list" where
  "getStateByPartialCompositeKey s objectType attributes =
     sort_key fst (filter (\<lambda>(k, v). fst k = objectType \<and> prefix attributes (snd k)) s)"

text \<open>
  What one invocation reads from its context: the attributes and the identifier of
  the caller's certificate, the channel, the transaction id, the seconds of the
  transaction timestamp (\<^const>\<open>None\<close> when \<^verbatim>\<open>ts\<close> or \<^verbatim>\<open>ts.seconds\<close> is missing) and
  the clock that \<^verbatim>\<open>Date.now()\<close> reads, taken once for the invocation.
\<close>

record ctx =
  getAttributeValue :: "string \<Rightarrow> string option"
  getID :: string
  getChannelID :: string
  getTxID :: string
  getTxTimestamp :: "64 word option"
  date_now :: int

text \<open>\<^verbatim>\<open>ts.seconds.low\<close>: the low 32 bits of the 64-bit seconds, read as a signed integer.\<close>

definition low :: "64 word \<Rightarrow> int" where
  "low secs = sint (ucast secs :: 32 word)"

text \<open>
  An invocation that throws commits nothing: the write set is discarded and the world
  state stays as it was. \<open>commit s r\<close> is the outcome of an invocation that ran on the
  state \<open>s\<close> with result \<open>r\<close>.
\<close>

definition commit :: "store \<Rightarrow> error + ('a \<times> store) \<Rightarrow> (error + 'a) \<times> store" where
  "commit s r = (case r of Inl e \<Rightarrow> (Inl e, s) | Inr (x, s') \<Rightarrow> (Inr x, s'))"

section \<open>ABAC utility class\<close>

definition role_required :: "string list \<Rightarrow> string \<Rightarrow> error" where
  "role_required expectedRoles found =
     Error (''Access denied: '' @ join '' or '' expectedRoles @ '' role required, but found '' @ found)"

definition requireRole :: "ctx \<Rightarrow> string list \<Rightarrow> error + string" where
  "requireRole ctx expectedRoles =
     (case getAttributeValue ctx ''role'' of
        None \<Rightarrow> Inl (role_required expectedRoles ''none'')
      | Some role \<Rightarrow>
          if role = [] then Inl (role_required expectedRoles ''none'')
          else if role \<in> set expectedRoles then Inr role
          else Inl (role_required expectedRoles role))"

definition getAttr :: "ctx \<Rightarrow> string \<Rightarrow> string option \<Rightarrow> error + string" where
  "getAttr ctx attr defaultValue =
     (case getAttributeValue ctx attr of
        Some val \<Rightarrow> Inr val
      | None \<Rightarrow>
          (case defaultValue of
             None \<Rightarrow> Inl (Error (''Missing required attribute: '' @ attr))
           | Some d \<Rightarrow> Inr d))"

definition assertEquals :: "'a \<Rightarrow> 'a \<Rightarrow> string \<Rightarrow> error + unit" where
  "assertEquals actual expected message =
     (if actual = expected then Inr () else Inl (Error message))"

section \<open>BaseContract\<close>

definition readState :: "store \<Rightarrow> key \<Rightarrow> error + json" where
  "readState s k = (case getState s k of None \<Rightarrow> Inl (StateDoesNotExist k) | Some data \<Rightarrow> Inr data)"

definition writeState :: "store \<Rightarrow> key \<Rightarrow> json \<Rightarrow> store" where
  "writeState s k jsonData = putState s k jsonData"

definition auditData :: "ctx \<Rightarrow> 64 word \<Rightarrow> string \<Rightarrow> json \<Rightarrow> json" where
  "auditData ctx secs action details =
     JObj [(''timestamp'', JNum (low secs)),
           (''user'', JStr (getID ctx)),
           (''channel'', JStr (getChannelID ctx)),
           (''action'', JStr action),
           (''details'', details)]"

definition logAudit :: "ctx \<Rightarrow> store \<Rightarrow> string \<Rightarrow> json \<Rightarrow> error + store" where
  "logAudit ctx s action details =
     (if getChannelID ctx = ''audit-channel'' then
        (case getTxTimestamp ctx of
           None \<Rightarrow> Inl (Error ''Failed to get transaction timestamp'')
         | Some secs \<Rightarrow>
             Inr (putState s (createCompositeKey ''audit'' [getTxID ctx])
                    (auditData ctx secs action details)))
      else Inr s)"

subsection \<open>The delegated access check\<close>

text \<open>
  The scan iterator is a resource of the invocation: it is open from
  \<^verbatim>\<open>getStateByPartialCompositeKey\<close> until \<^verbatim>\<open>iterator.close()\<close>. The check returns its
  result together with the state in which it leaves the iterator.
\<close>

datatype iterator_state = NoIterator | IteratorOpen | IteratorClosed

text \<open>
  The condition of the loop:
  \<^verbatim>\<open>policy.permissions.includes(permission) && (!policy.expiry || policy.expiry > Date.now())\<close>.
\<close>

definition policy_applies :: "ctx \<Rightarrow> json \<Rightarrow> string \<Rightarrow> error + bool" where
  "policy_applies ctx policy permission =
     andThen (get_prop policy ''permissions'') (\<lambda>permissions.
     andThen (js_includes permissions permission) (\<lambda>listed.
       if listed then
         andThen (get_prop policy ''expiry'') (\<lambda>expiry.
           Inr (if truthy expiry then js_gt expiry (date_now ctx) else True))
       else Inr False))"

text \<open>The body of the loop for a policy that applies: the record and its two gates.\<close>

definition gated_record :: "ctx \<Rightarrow> store \<Rightarrow> string \<Rightarrow> string \<Rightarrow> string \<Rightarrow> error + json" where
  "gated_record ctx s patientId dataType callerHospitalID =
     andThen (readState s (createCompositeKey dataType [patientId])) (\<lambda>record.
     andThen (get_prop record ''hospitalID'') (\<lambda>hospitalID.
     andThen (assertEquals hospitalID (Some (JStr callerHospitalID))
                ''Access denied: Record belongs to a different hospital'') (\<lambda>_.
     andThen (getAttr ctx ''clearance'' (Some ''low'')) (\<lambda>clearance.
     andThen (get_prop record ''sensitivity'') (\<lambda>sensitivity.
       if sensitivity = Some (JStr ''high'') \<and> clearance \<noteq> ''high''
       then Inl (Error ''Access denied: High sensitivity data requires high clearance'')
       else Inr record)))))"

text \<open>
  The \<^verbatim>\<open>while (true)\<close> loop over the scan results. It leaves with \<^verbatim>\<open>break\<close> or an
  exception at the first policy that applies, and closes the iterator when the results
  are exhausted (\<^verbatim>\<open>res.done\<close>).
\<close>

fun policy_loop ::
  "ctx \<Rightarrow> store \<Rightarrow> string \<Rightarrow> string \<Rightarrow> string \<Rightarrow> string \<Rightarrow> (key \<times> json) list
     \<Rightarrow> (error + json option) \<times> iterator_state" where
  "policy_loop ctx s patientId dataType permission callerHospitalID [] = (Inr None, IteratorClosed)"
| "policy_loop ctx s patientId dataType permission callerHospitalID ((k, policy) # rest) =
     (case policy_applies ctx policy permission of
        Inl e \<Rightarrow> (Inl e, IteratorOpen)
      | Inr True \<Rightarrow>
          (case gated_record ctx s patientId dataType callerHospitalID of
             Inl e \<Rightarrow> (Inl e, IteratorOpen)
           | Inr record \<Rightarrow> (Inr (Some record), IteratorOpen))
      | Inr False \<Rightarrow> policy_loop ctx s patientId dataType permission callerHospitalID rest)"

definition no_access :: "ctx \<Rightarrow> string \<Rightarrow> string \<Rightarrow> string \<Rightarrow> string \<Rightarrow> error" where
  "no_access ctx permission callerRole dataType patientId =
     Error (''Access denied: No '' @ permission @ '' access for '' @ callerRole @ '' '' @ getID ctx
            @ '' on '' @ dataType @ '' for patient '' @ patientId)"

definition checkAccessPolicy_run ::
  "ctx \<Rightarrow> store \<Rightarrow> string \<Rightarrow> string \<Rightarrow> string \<Rightarrow> (error + json) \<times> iterator_state" where
  "checkAccessPolicy_run ctx s patientId dataType permission =
     (case getAttr ctx ''role'' None of
        Inl e \<Rightarrow> (Inl e, NoIterator)
      | Inr callerRole \<Rightarrow>
          (case getAttr ctx ''hospitalID'' None of
             Inl e \<Rightarrow> (Inl e, NoIterator)
           | Inr callerHospitalID \<Rightarrow>
               (case policy_loop ctx s patientId dataType permission callerHospitalID
                       (getStateByPartialCompositeKey s ''policy'' [patientId, callerRole, dataType]) of
                  (Inl e, it) \<Rightarrow> (Inl e, it)
                | (Inr None, it) \<Rightarrow> (Inl (no_access ctx permission callerRole dataType patientId), it)
                | (Inr (Some record), it) \<Rightarrow> (Inr record, it))))"

definition checkAccessPolicy :: "ctx \<Rightarrow> store \<Rightarrow> string \<Rightarrow> string \<Rightarrow> string \<Rightarrow> error + json" where
  "checkAccessPolicy ctx s patientId dataType permission =
     fst (checkAccessPolicy_run ctx s patientId dataType permission)"

definition success :: "string \<Rightarrow> json" where
  "success message = JObj [(''success'', JStr message)]"

section \<open>AdminContract\<close>

definition createPatient ::
  "ctx \<Rightarrow> store \<Rightarrow> string \<Rightarrow> string \<Rightarrow> json option \<Rightarrow> error + (json \<times> store)" where
  "createPatient ctx s patientId hospitalID patientDataJson =
     andThen (requireRole ctx [''admin'']) (\<lambda>_.
     andThen (getAttr ctx ''hospitalID'' None) (\<lambda>adminHospitalID.
     andThen (assertEquals adminHospitalID hospitalID
                ''Access denied: Admin can only create patients in their hospital'') (\<lambda>_.
       let ehrKey = createCompositeKey ''ehr'' [patientId] in
       (case getState s ehrKey of
          Some exists \<Rightarrow> Inl (Error (''Patient '' @ patientId @ '' already exists''))
        | None \<Rightarrow>
            andThen (JSON_parse patientDataJson) (\<lambda>patientData.
            andThen (set_prop patientData ''hospitalID'' (Some (JStr hospitalID))) (\<lambda>d1.
            andThen (get_prop d1 ''sensitivity'') (\<lambda>sensitivity.
            andThen (set_prop d1 ''sensitivity'' (js_or sensitivity (Some (JStr ''low'')))) (\<lambda>d2.
            andThen (logAudit ctx (writeState s ehrKey d2) ''createPatient''
                       (JObj [(''patientId'', JStr patientId), (''hospitalID'', JStr hospitalID)])) (\<lambda>s'.
              Inr (success (''Patient '' @ patientId @ '' created''), s'))))))))))"

definition deletePatient :: "ctx \<Rightarrow> store \<Rightarrow> string \<Rightarrow> error + (json \<times> store)" where
  "deletePatient ctx s patientId =
     andThen (requireRole ctx [''admin'']) (\<lambda>_.
     andThen (getAttr ctx ''hospitalID'' None) (\<lambda>adminHospitalID.
       let ehrKey = createCompositeKey ''ehr'' [patientId] in
       andThen (readState s ehrKey) (\<lambda>record.
       andThen (get_prop record ''hospitalID'') (\<lambda>hospitalID.
       andThen (assertEquals hospitalID (Some (JStr adminHospitalID))
                  ''Access denied: Patient belongs to a different hospital'') (\<lambda>_.
       andThen (logAudit ctx (deleteState s ehrKey) ''deletePatient''
                  (JObj [(''patientId'', JStr patientId)])) (\<lambda>s'.
         Inr (success (''Patient '' @ patientId @ '' deleted''), s')))))))"

fun patients_loop :: "string \<Rightarrow> json list \<Rightarrow> (key \<times> json) list \<Rightarrow> error + json list" where
  "patients_loop adminHospitalID results [] = Inr results"
| "patients_loop adminHospitalID results ((k, record) # rest) =
     andThen (get_prop record ''hospitalID'') (\<lambda>hospitalID.
       patients_loop adminHospitalID
         (if hospitalID = Some (JStr adminHospitalID) then results @ [record] else results) rest)"

definition getAllPatients :: "ctx \<Rightarrow> store \<Rightarrow> error + (json \<times> store)" where
  "getAllPatients ctx s =
     andThen (requireRole ctx [''admin'']) (\<lambda>_.
     andThen (getAttr ctx ''hospitalID'' None) (\<lambda>adminHospitalID.
     andThen (patients_loop adminHospitalID [] (getStateByPartialCompositeKey s ''ehr'' [])) (\<lambda>results.
     andThen (logAudit ctx s ''getAllPatients''
                (JObj [(''count'', JNum (int (length results)))])) (\<lambda>s'.
       Inr (JArr results, s')))))"

section \<open>PatientContract\<close>

definition readMyRecord ::
  "ctx \<Rightarrow> store \<Rightarrow> string \<Rightarrow> string \<Rightarrow> error + (json \<times> store)" where
  "readMyRecord ctx s patientId dataType =
     andThen (requireRole ctx [''patient'']) (\<lambda>_.
       if \<not> str_includes (getID ctx) patientId
       then Inl (Error ''Access denied: Can only read your own record'')
       else
         andThen (readState s (createCompositeKey dataType [patientId])) (\<lambda>recordJson.
         andThen (logAudit ctx s ''readMyRecord''
                    (JObj [(''patientId'', JStr patientId), (''dataType'', JStr dataType)])) (\<lambda>s'.
           Inr (recordJson, s'))))"

definition updateMyRecord ::
  "ctx \<Rightarrow> store \<Rightarrow> string \<Rightarrow> string \<Rightarrow> json option \<Rightarrow> error + (json \<times> store)" where
  "updateMyRecord ctx s patientId dataType updatedDataJson =
     andThen (requireRole ctx [''patient'']) (\<lambda>_.
       if \<not> str_includes (getID ctx) patientId
       then Inl (Error ''Access denied: Can only update your own record'')
       else
         let recordKey = createCompositeKey dataType [patientId] in
         andThen (readState s recordKey) (\<lambda>existingRecord.
         andThen (JSON_parse updatedDataJson) (\<lambda>updatedData.
         andThen (get_prop existingRecord ''hospitalID'') (\<lambda>hospitalID.
         andThen (set_prop updatedData ''hospitalID'' hospitalID) (\<lambda>d1.
         andThen (get_prop d1 ''sensitivity'') (\<lambda>sensitivity.
         andThen (get_prop existingRecord ''sensitivity'') (\<lambda>existingSensitivity.
         andThen (set_prop d1 ''sensitivity'' (js_or sensitivity existingSensitivity)) (\<lambda>d2.
         andThen (logAudit ctx (writeState s recordKey d2) ''updateMyRecord''
                    (JObj [(''patientId'', JStr patientId), (''dataType'', JStr dataType)])) (\<lambda>s'.
           Inr (success (dataType @ '' for patient '' @ patientId @ '' updated''), s'))))))))))"

definition permissionArray :: "string \<Rightarrow> string list" where
  "permissionArray permissions = map trim (split_comma permissions)"

definition policy_expiry :: "string \<Rightarrow> json" where
  "policy_expiry expiry =
     (if expiry = [] then JNull
      else (case parseInt expiry of None \<Rightarrow> JNull | Some n \<Rightarrow> JNum n))"

definition grantAccess ::
  "ctx \<Rightarrow> store \<Rightarrow> string \<Rightarrow> string \<Rightarrow> string \<Rightarrow> string \<Rightarrow> string \<Rightarrow> error + (json \<times> store)" where
  \<open>grantAccess ctx s patientId role dataType permissions expiry =
     andThen (requireRole ctx [''patient'']) (\<lambda>_.
       if \<not> str_includes (getID ctx) patientId
       then Inl (Error ''Access denied: Can only grant access for your own record'')
       else if \<not> list_all (\<lambda>p. p \<in> set [''read'', ''write'']) (permissionArray permissions)
       then Inl (Error ''Invalid permissions: Only "read" and "write" are allowed'')
       else
         let policy = JObj [(''patientId'', JStr patientId),
                            (''role'', JStr role),
                            (''dataType'', JStr dataType),
                            (''permissions'', JArr (map JStr (permissionArray permissions))),
                            (''expiry'', policy_expiry expiry)];
             policyKey = createCompositeKey ''policy'' [patientId, role, dataType]
         in
         andThen (logAudit ctx (writeState s policyKey policy) ''grantAccess''
                    (JObj [(''patientId'', JStr patientId), (''role'', JStr role),
                           (''dataType'', JStr dataType), (''permissions'', JStr permissions),
                           (''expiry'', JStr expiry)])) (\<lambda>s'.
           Inr (success (''Access policy created for '' @ role @ '' on '' @ dataType), s')))\<close>

definition revokeAccess ::
  "ctx \<Rightarrow> store \<Rightarrow> string \<Rightarrow> string \<Rightarrow> string \<Rightarrow> error + (json \<times> store)" where
  "revokeAccess ctx s patientId role dataType =
     andThen (requireRole ctx [''patient'']) (\<lambda>_.
       if \<not> str_includes (getID ctx) patientId
       then Inl (Error ''Access denied: Can only revoke access for your own record'')
       else
         let policyKey = createCompositeKey ''policy'' [patientId, role, dataType] in
         andThen (readState s policyKey) (\<lambda>policyJson.
         andThen (logAudit ctx (deleteState s policyKey) ''revokeAccess''
                    (JObj [(''patientId'', JStr patientId), (''role'', JStr role),
                           (''dataType'', JStr dataType)])) (\<lambda>s'.
           Inr (success (''Access policy for '' @ role @ '' on '' @ dataType @ '' revoked''), s'))))"

section \<open>DoctorContract\<close>

definition doctor_readPatientRecord ::
  "ctx \<Rightarrow> store \<Rightarrow> string \<Rightarrow> string \<Rightarrow> error + (json \<times> store)" where
  "doctor_readPatientRecord ctx s patientId dataType =
     andThen (requireRole ctx [''doctor'']) (\<lambda>_.
     andThen (checkAccessPolicy ctx s patientId dataType ''read'') (\<lambda>record.
     andThen (logAudit ctx s ''readPatientRecord''
                (JObj [(''patientId'', JStr patientId), (''dataType'', JStr dataType),
                       (''doctorId'', JStr (getID ctx))])) (\<lambda>s'.
       Inr (record, s'))))"

text \<open>
  The merge of both update operations:
  \<^verbatim>\<open>{ ...existingRecord, field: updatedData.field || existingRecord.field }\<close>, then the
  two assignments of \<^verbatim>\<open>hospitalID\<close> and \<^verbatim>\<open>sensitivity\<close>.
\<close>

definition mergedRecord :: "json \<Rightarrow> json \<Rightarrow> string \<Rightarrow> error + json" where
  "mergedRecord existingRecord updatedData field =
     andThen (get_prop updatedData field) (\<lambda>updated.
     andThen (get_prop existingRecord field) (\<lambda>existing.
     andThen (set_prop (JObj (spread existingRecord)) field (js_or updated existing)) (\<lambda>m0.
     andThen (get_prop existingRecord ''hospitalID'') (\<lambda>hospitalID.
     andThen (set_prop m0 ''hospitalID'' hospitalID) (\<lambda>m1.
     andThen (get_prop m1 ''sensitivity'') (\<lambda>sensitivity.
     andThen (get_prop existingRecord ''sensitivity'') (\<lambda>existingSensitivity.
       set_prop m1 ''sensitivity'' (js_or sensitivity existingSensitivity))))))))"

definition updatePatientRecord ::
  "ctx \<Rightarrow> store \<Rightarrow> string \<Rightarrow> string \<Rightarrow> json option \<Rightarrow> error + (json \<times> store)" where
  "updatePatientRecord ctx s patientId dataType updatedDataJson =
     andThen (requireRole ctx [''doctor'']) (\<lambda>_.
       let recordKey = createCompositeKey dataType [patientId] in
       andThen (checkAccessPolicy ctx s patientId dataType ''write'') (\<lambda>existingRecord.
       andThen (JSON_parse updatedDataJson) (\<lambda>updatedData.
       andThen (mergedRecord existingRecord updatedData ''medical'') (\<lambda>merged.
       andThen (logAudit ctx (writeState s recordKey merged) ''updatePatientRecord''
                  (JObj [(''patientId'', JStr patientId), (''dataType'', JStr dataType),
                         (''doctorId'', JStr (getID ctx))])) (\<lambda>s'.
         Inr (success (dataType @ '' for patient '' @ patientId @ '' updated''), s'))))))"

definition createLabReport ::
  "ctx \<Rightarrow> store \<Rightarrow> string \<Rightarrow> string \<Rightarrow> json option \<Rightarrow> error + (json \<times> store)" where
  "createLabReport ctx s patientId labId labDataJson =
     andThen (requireRole ctx [''doctor'']) (\<lambda>_.
     andThen (checkAccessPolicy ctx s patientId ''ehr'' ''write'') (\<lambda>_.
     andThen (getAttr ctx ''hospitalID'' None) (\<lambda>hospitalID.
       let labKey = createCompositeKey ''lab'' [patientId, labId] in
       (case getState s labKey of
          Some exists \<Rightarrow>
            Inl (Error (''Lab report '' @ labId @ '' for patient '' @ patientId @ '' already exists''))
        | None \<Rightarrow>
            andThen (JSON_parse labDataJson) (\<lambda>labData.
            andThen (set_prop labData ''hospitalID'' (Some (JStr hospitalID))) (\<lambda>d1.
            andThen (get_prop d1 ''sensitivity'') (\<lambda>sensitivity.
            andThen (set_prop d1 ''sensitivity'' (js_or sensitivity (Some (JStr ''medium'')))) (\<lambda>d2.
            andThen (logAudit ctx (writeState s labKey d2) ''createLabReport''
                       (JObj [(''patientId'', JStr patientId), (''labId'', JStr labId),
                              (''doctorId'', JStr (getID ctx))])) (\<lambda>s'.
              Inr (success (''Lab report '' @ labId @ '' created for patient '' @ patientId), s'))))))))))"

definition createPrescription ::
  "ctx \<Rightarrow> store \<Rightarrow> string \<Rightarrow> string \<Rightarrow> json option \<Rightarrow> error + (json \<times> store)" where
  "createPrescription ctx s patientId prescriptionId prescriptionDataJson =
     andThen (requireRole ctx [''doctor'']) (\<lambda>_.
     andThen (checkAccessPolicy ctx s patientId ''ehr'' ''write'') (\<lambda>_.
     andThen (getAttr ctx ''hospitalID'' None) (\<lambda>hospitalID.
       let prescriptionKey = createCompositeKey ''prescription'' [patientId, prescriptionId] in
       (case getState s prescriptionKey of
          Some exists \<Rightarrow>
            Inl (Error (''Prescription '' @ prescriptionId @ '' for patient '' @ patientId
                        @ '' already exists''))
        | None \<Rightarrow>
            andThen (JSON_parse prescriptionDataJson) (\<lambda>prescriptionData.
            andThen (set_prop prescriptionData ''hospitalID'' (Some (JStr hospitalID))) (\<lambda>d1.
            andThen (get_prop d1 ''sensitivity'') (\<lambda>sensitivity.
            andThen (set_prop d1 ''sensitivity'' (js_or sensitivity (Some (JStr ''low'')))) (\<lambda>d2.
            andThen (logAudit ctx (writeState s prescriptionKey d2) ''createPrescription''
                       (JObj [(''patientId'', JStr patientId), (''prescriptionId'', JStr prescriptionId),
                              (''doctorId'', JStr (getID ctx))])) (\<lambda>s'.
              Inr (success (''Prescription '' @ prescriptionId @ '' created for patient '' @ patientId),
                   s'))))))))))"

section \<open>NurseContract\<close>

definition nurse_readPatientRecord ::
  "ctx \<Rightarrow> store \<Rightarrow> string \<Rightarrow> string \<Rightarrow> error + (json \<times> store)" where
  "nurse_readPatientRecord ctx s patientId dataType =
     andThen (requireRole ctx [''nurse'']) (\<lambda>_.
     andThen (readState s (createCompositeKey dataType [patientId])) (\<lambda>record.
     andThen (getAttr ctx ''hospitalID'' None) (\<lambda>callerHospitalID.
     andThen (get_prop record ''hospitalID'') (\<lambda>hospitalID.
     andThen (assertEquals hospitalID (Some (JStr callerHospitalID))
                ''Access denied: Record belongs to a different hospital'') (\<lambda>_.
     andThen (getAttr ctx ''clearance'' (Some ''low'')) (\<lambda>clearance.
     andThen (get_prop record ''sensitivity'') (\<lambda>sensitivity.
       if sensitivity = Some (JStr ''high'') \<and> clearance \<noteq> ''high''
       then Inl (Error ''Access denied: High sensitivity data requires high clearance'')
       else
         andThen (logAudit ctx s ''readPatientRecord''
                    (JObj [(''patientId'', JStr patientId), (''dataType'', JStr dataType),
                           (''nurseId'', JStr (getID ctx))])) (\<lambda>s'.
           Inr (record, s')))))))))"

section \<open>InsuranceContract\<close>

definition readInsuranceData ::
  "ctx \<Rightarrow> store \<Rightarrow> string \<Rightarrow> error + (json \<times> store)" where
  "readInsuranceData ctx s patientId =
     andThen (requireRole ctx [''insurance'']) (\<lambda>_.
       if getChannelID ctx \<noteq> ''insurance-channel''
       then Inl (Error ''Access denied: Insurance data only accessible on insurance-channel'')
       else
         andThen (checkAccessPolicy ctx s patientId ''insurance'' ''read'') (\<lambda>record.
         andThen (logAudit ctx s ''readInsuranceData''
                    (JObj [(''patientId'', JStr patientId), (''insuranceId'', JStr (getID ctx))])) (\<lambda>s'.
           Inr (record, s'))))"

definition updateInsuranceData ::
  "ctx \<Rightarrow> store \<Rightarrow> string \<Rightarrow> json option \<Rightarrow> error + (json \<times> store)" where
  "updateInsuranceData ctx s patientId insuranceDataJson =
     andThen (requireRole ctx [''insurance'']) (\<lambda>_.
       if getChannelID ctx \<noteq> ''insurance-channel''
       then Inl (Error ''Access denied: Insurance data only accessible on insurance-channel'')
       else
         let recordKey = createCompositeKey ''insurance'' [patientId] in
         andThen (checkAccessPolicy ctx s patientId ''insurance'' ''write'') (\<lambda>existingRecord.
         andThen (JSON_parse insuranceDataJson) (\<lambda>updatedData.
         andThen (mergedRecord existingRecord updatedData ''policy'') (\<lambda>merged.
         andThen (logAudit ctx (writeState s recordKey merged) ''updateInsuranceData''
                    (JObj [(''patientId'', JStr patientId), (''insuranceId'', JStr (getID ctx))])) (\<lambda>s'.
           Inr (success (''Insurance data for patient '' @ patientId @ '' updated''), s'))))))"

section \<open>AuditContract\<close>

text \<open>\<^verbatim>\<open>parseInt(x) || d\<close>: the default replaces \<^verbatim>\<open>NaN\<close> and zero.\<close>

definition parseInt_or :: "string \<Rightarrow> int \<Rightarrow> int" where
  "parseInt_or x d = (case parseInt x of None \<Rightarrow> d | Some n \<Rightarrow> if n = 0 then d else n)"

text \<open>
  The visibility test of one log entry:
  \<^verbatim>\<open>role === 'admin' || (log.details.patientId && getID().includes(log.details.patientId))\<close>.
\<close>

definition log_visible :: "ctx \<Rightarrow> json \<Rightarrow> error + bool" where
  "log_visible ctx log =
     andThen (getAttr ctx ''role'' None) (\<lambda>role.
       if role = ''admin'' then Inr True
       else
         andThen (get_prop log ''details'') (\<lambda>details.
         andThen (get_prop_opt details ''patientId'') (\<lambda>patientId.
           Inr (case patientId of
                  None \<Rightarrow> False
                | Some v \<Rightarrow> if truthy (Some v) then str_includes (getID ctx) (to_str v) else False))))"

fun audit_loop :: "ctx \<Rightarrow> int \<Rightarrow> int \<Rightarrow> json list \<Rightarrow> (key \<times> json) list \<Rightarrow> error + json list" where
  "audit_loop ctx start endT results [] = Inr results"
| "audit_loop ctx start endT results ((k, log) # rest) =
     andThen (get_prop log ''timestamp'') (\<lambda>timestamp.
       if js_ge timestamp start \<and> js_le timestamp endT then
         andThen (log_visible ctx log) (\<lambda>visible.
           audit_loop ctx start endT (if visible then results @ [log] else results) rest)
       else audit_loop ctx start endT results rest)"

definition getAuditLogs :: "ctx \<Rightarrow> store \<Rightarrow> string \<Rightarrow> string \<Rightarrow> error + json" where
  "getAuditLogs ctx s startTime endTime =
     andThen (requireRole ctx [''admin'', ''patient'']) (\<lambda>_.
       if getChannelID ctx \<noteq> ''audit-channel''
       then Inl (Error ''Access denied: Audit logs only accessible on audit-channel'')
       else
         andThen (audit_loop ctx (parseInt_or startTime 0) (parseInt_or endTime (date_now ctx)) []
                    (getStateByPartialCompositeKey s ''audit'' [])) (\<lambda>results.
           Inr (JArr results)))"

section \<open>The audited operations\<close>

text \<open>
  The fourteen transactions of the contracts that call \<^verbatim>\<open>_logAudit\<close>, with their
  arguments; \<^verbatim>\<open>getAuditLogs\<close> is the one transaction that does not. \<open>run\<close>
  dispatches an invocation to its method. \<open>audit_action\<close> and \<open>audit_details\<close> are
  the action name and the details the method passes to \<^verbatim>\<open>_logAudit\<close> (the details
  of \<^verbatim>\<open>getAllPatients\<close> count the records it returns), and \<open>target\<close> is the key
  the method itself writes or deletes, if any.
\<close>

datatype operation =
    CreatePatient string string "json option"
  | DeletePatient string
  | GetAllPatients
  | ReadMyRecord string string
  | UpdateMyRecord string string "json option"
  | GrantAccess string string string string string
  | RevokeAccess string string string
  | DoctorReadPatientRecord string string
  | UpdatePatientRecord string string "json option"
  | CreateLabReport string string "json option"
  | CreatePrescription string string "json option"
  | NurseReadPatientRecord string string
  | ReadInsuranceData string
  | UpdateInsuranceData string "json option"

fun run :: "ctx \<Rightarrow> store \<Rightarrow> operation \<Rightarrow> error + (json \<times> store)" where
  "run ctx s (CreatePatient patientId hospitalID patientDataJson) =
     createPatient ctx s patientId hospitalID patientDataJson"
| "run ctx s (DeletePatient patientId) = deletePatient ctx s patientId"
| "run ctx s GetAllPatients = getAllPatients ctx s"
| "run ctx s (ReadMyRecord patientId dataType) = readMyRecord ctx s patientId dataType"
| "run ctx s (UpdateMyRecord patientId dataType updatedDataJson) =
     updateMyRecord ctx s patientId dataType updatedDataJson"
| "run ctx s (GrantAccess patientId role dataType permissions expiry) =
     grantAccess ctx s patientId role dataType permissions expiry"
| "run ctx s (RevokeAccess patientId role dataType) = revokeAccess ctx s patientId role dataType"
| "run ctx s (DoctorReadPatientRecord patientId dataType) =
     doctor_readPatientRecord ctx s patientId dataType"
| "run ctx s (UpdatePatientRecord patientId dataType updatedDataJson) =
     updatePatientRecord ctx s patientId dataType updatedDataJson"
| "run ctx s (CreateLabReport patientId labId labDataJson) =
     createLabReport ctx s patientId labId labDataJson"
| "run ctx s (CreatePrescription patientId prescriptionId prescriptionDataJson) =
     createPrescription ctx s patientId prescriptionId prescriptionDataJson"
| "run ctx s (NurseReadPatientRecord patientId dataType) =
     nurse_readPatientRecord ctx s patientId dataType"
| "run ctx s (ReadInsuranceData patientId) = readInsuranceData ctx s patientId"
| "run ctx s (UpdateInsuranceData patientId insuranceDataJson) =
     updateInsuranceData ctx s patientId insuranceDataJson"

fun insurer_operation :: "operation \<Rightarrow> bool" where
  "insurer_operation (ReadInsuranceData patientId) = True"
| "insurer_operation (UpdateInsuranceData patientId insuranceDataJson) = True"
| "insurer_operation op = False"

fun audit_action :: "operation \<Rightarrow> string" where
  "audit_action (CreatePatient patientId hospitalID patientDataJson) = ''createPatient''"
| "audit_action (DeletePatient patientId) = ''deletePatient''"
| "audit_action GetAllPatients = ''getAllPatients''"
| "audit_action (ReadMyRecord patientId dataType) = ''readMyRecord''"
| "audit_action (UpdateMyRecord patientId dataType updatedDataJson) = ''updateMyRecord''"
| "audit_action (GrantAccess patientId role dataType permissions expiry) = ''grantAccess''"
| "audit_action (RevokeAccess patientId role dataType) = ''revokeAccess''"
| "audit_action (DoctorReadPatientRecord patientId dataType) = ''readPatientRecord''"
| "audit_action (UpdatePatientRecord patientId dataType updatedDataJson) = ''updatePatientRecord''"
| "audit_action (CreateLabReport patientId labId labDataJson) = ''createLabReport''"
| "audit_action (CreatePrescription patientId prescriptionId prescriptionDataJson) = ''createPrescription''"
| "audit_action (NurseReadPatientRecord patientId dataType) = ''readPatientRecord''"
| "audit_action (ReadInsuranceData patientId) = ''readInsuranceData''"
| "audit_action (UpdateInsuranceData patientId insuranceDataJson) = ''updateInsuranceData''"

fun audit_details :: "ctx \<Rightarrow> operation \<Rightarrow> json \<Rightarrow> json" where
  "audit_details ctx (CreatePatient patientId hospitalID patientDataJson) res =
     JObj [(''patientId'', JStr patientId), (''hospitalID'', JStr hospitalID)]"
| "audit_details ctx (DeletePatient patientId) res = JObj [(''patientId'', JStr patientId)]"
| "audit_details ctx GetAllPatients res =
     JObj [(''count'', JNum (case res of JArr results \<Rightarrow> int (length results) | _ \<Rightarrow> 0))]"
| "audit_details ctx (ReadMyRecord patientId dataType) res =
     JObj [(''patientId'', JStr patientId), (''dataType'', JStr dataType)]"
| "audit_details ctx (UpdateMyRecord patientId dataType updatedDataJson) res =
     JObj [(''patientId'', JStr patientId), (''dataType'', JStr dataType)]"
| "audit_details ctx (GrantAccess patientId role dataType permissions expiry) res =
     JObj [(''patientId'', JStr patientId), (''role'', JStr role), (''dataType'', JStr dataType),
           (''permissions'', JStr permissions), (''expiry'', JStr expiry)]"
| "audit_details ctx (RevokeAccess patientId role dataType) res =
     JObj [(''patientId'', JStr patientId), (''role'', JStr role), (''dataType'', JStr dataType)]"
| "audit_details ctx (DoctorReadPatientRecord patientId dataType) res =
     JObj [(''patientId'', JStr patientId), (''dataType'', JStr dataType),
           (''doctorId'', JStr (getID ctx))]"
| "audit_details ctx (UpdatePatientRecord patientId dataType updatedDataJson) res =
     JObj [(''patientId'', JStr patientId), (''dataType'', JStr dataType),
           (''doctorId'', JStr (getID ctx))]"
| "audit_details ctx (CreateLabReport patientId labId labDataJson) res =
     JObj [(''patientId'', JStr patientId), (''labId'', JStr labId), (''doctorId'', JStr (getID ctx))]"
| "audit_details ctx (CreatePrescription patientId prescriptionId prescriptionDataJson) res =
     JObj [(''patientId'', JStr patientId), (''prescriptionId'', JStr prescriptionId),
           (''doctorId'', JStr (getID ctx))]"
| "audit_details ctx (NurseReadPatientRecord patientId dataType) res =
     JObj [(''patientId'', JStr patientId), (''dataType'', JStr dataType),
           (''nurseId'', JStr (getID ctx))]"
| "audit_details ctx (ReadInsuranceData patientId) res =
     JObj [(''patientId'', JStr patientId), (''insuranceId'', JStr (getID ctx))]"
| "audit_details ctx (UpdateInsuranceData patientId insuranceDataJson) res =
     JObj [(''patientId'', JStr patientId), (''insuranceId'', JStr (getID ctx))]"

fun target :: "operation \<Rightarrow> key option" where
  "target (CreatePatient patientId hospitalID patientDataJson) =
     Some (createCompositeKey ''ehr'' [patientId])"
| "target (DeletePatient patientId) = Some (createCompositeKey ''ehr'' [patientId])"
| "target GetAllPatients = None"
| "target (ReadMyRecord patientId dataType) = None"
| "target (UpdateMyRecord patientId dataType updatedDataJson) =
     Some (createCompositeKey dataType [patientId])"
| "target (GrantAccess patientId role dataType permissions expiry) =
     Some (createCompositeKey ''policy'' [patientId, role, dataType])"
| "target (RevokeAccess patientId role dataType) =
     Some (createCompositeKey ''policy'' [patientId, role, dataType])"
| "target (DoctorReadPatientRecord patientId dataType) = None"
| "target (UpdatePatientRecord patientId dataType updatedDataJson) =
     Some (createCompositeKey dataType [patientId])"
| "target (CreateLabReport patientId labId labDataJson) =
     Some (createCompositeKey ''lab'' [patientId, labId])"
| "target (CreatePrescription patientId prescriptionId prescriptionDataJson) =
     Some (createCompositeKey ''prescription'' [patientId, prescriptionId])"
| "target (NurseReadPatientRecord patientId dataType) = None"
| "target (ReadInsuranceData patientId) = None"
| "target (UpdateInsuranceData patientId insuranceDataJson) =
     Some (createCompositeKey ''insurance'' [patientId])"

text \<open>
  The outcome of an operation with one audit entry added under the key of the
  transaction id.
\<close>

definition with_audit_entry :: "ctx \<Rightarrow> 64 word \<Rightarrow> operation \<Rightarrow> json \<times> store \<Rightarrow> error + (json \<times> store)" where
  "with_audit_entry ctx secs op r =
     Inr (fst r, putState (snd r) (createCompositeKey ''audit'' [getTxID ctx])
                   (auditData ctx secs (audit_action op) (audit_details ctx op (fst r))))"

section \<open>Outcomes and well-formed audit entries\<close>

text \<open>
  A read is refused when it throws an access-denied error, or the error of a caller
  without \<^verbatim>\<open>role\<close> or \<^verbatim>\<open>hospitalID\<close> attribute, or the \<open>TypeError\<close> of a
  malformed policy document met by the scan.
\<close>

definition read_refused :: "error + 'a \<Rightarrow> bool" where
  "read_refused r =
     (case r of
        Inl e \<Rightarrow> is_access_denied e \<or> e = TypeError
                 \<or> e = Error ''Missing required attribute: role''
                 \<or> e = Error ''Missing required attribute: hospitalID''
      | Inr x \<Rightarrow> False)"

text \<open>
  The shape of an audit entry as \<^verbatim>\<open>_logAudit\<close> writes it: an object with a numeric
  \<^verbatim>\<open>timestamp\<close> and an object \<^verbatim>\<open>details\<close> whose \<^verbatim>\<open>patientId\<close>, if present, is a
  string. The selection of the audit query follows the words of the specification:
  the timestamp lies in the range, and the caller is an admin or the patientId of the
  entry is a non-empty substring of the caller's identifier.
\<close>

definition entry_wf :: "json \<Rightarrow> bool" where
  "entry_wf log =
     (case log of
        JObj fs \<Rightarrow>
          (case map_of fs ''timestamp'' of
             Some (JNum t) \<Rightarrow>
               (case map_of fs ''details'' of
                  Some (JObj ds) \<Rightarrow>
                    (case map_of ds ''patientId'' of
                       None \<Rightarrow> True
                     | Some (JStr p) \<Rightarrow> True
                     | _ \<Rightarrow> False)
                | _ \<Rightarrow> False)
           | _ \<Rightarrow> False)
      | _ \<Rightarrow> False)"

definition entry_timestamp :: "json \<Rightarrow> int" where
  "entry_timestamp log = (case get_prop log ''timestamp'' of Inr (Some (JNum t)) \<Rightarrow> t | _ \<Rightarrow> 0)"

definition entry_patientId :: "json \<Rightarrow> string" where
  "entry_patientId log =
     (case get_prop log ''details'' of
        Inr (Some details) \<Rightarrow>
          (case get_prop details ''patientId'' of Inr (Some (JStr p)) \<Rightarrow> p | _ \<Rightarrow> [])
      | _ \<Rightarrow> [])"

definition entry_selected :: "ctx \<Rightarrow> int \<Rightarrow> int \<Rightarrow> json \<Rightarrow> bool" where
  "entry_selected ctx start endT log =
     (start \<le> entry_timestamp log \<and> entry_timestamp log \<le> endT
      \<and> (getAttributeValue ctx ''role'' = Some ''admin''
           \<or> (entry_patientId log \<noteq> [] \<and> str_includes (getID ctx) (entry_patientId log))))"

text \<open>
  The invariant of the world state: one binding for a key, and three attributes in
  every key of object type \<^verbatim>\<open>policy\<close>, the only shape \<^verbatim>\<open>grantAccess\<close> creates. It
  holds of the empty ledger and every operation that writes keeps it.
\<close>

definition policy_keys_wf :: "store \<Rightarrow> bool" where
  "policy_keys_wf s =
     list_all (\<lambda>k. if fst k = ''policy'' then length (snd k) = 3 else True) (map fst s)"

definition store_inv :: "store \<Rightarrow> bool" where
  "store_inv s = (distinct_keys s \<and> policy_keys_wf s)"

text \<open>The policy document that \<^verbatim>\<open>grantAccess\<close> writes when no expiry is given.\<close>

definition granted_policy :: "string \<Rightarrow> string \<Rightarrow> string \<Rightarrow> string \<Rightarrow> json" where
  "granted_policy patientId role dataType permissions =
     JObj [(''patientId'', JStr patientId), (''role'', JStr role), (''dataType'', JStr dataType),
           (''permissions'', JArr (map JStr (permissionArray permissions))), (''expiry'', JNull)]"

section \<open>Example callers and world states\<close>

text \<open>
  Concrete invocations at which the theorems below are evaluated: a patient \<open>p1\<close> of
  hospital \<open>H1\<close>, staff of \<open>H1\<close> and \<open>H2\<close>, and small world states.
\<close>

definition caller :: "(string \<times> string) list \<Rightarrow> string \<Rightarrow> string \<Rightarrow> ctx" where
  "caller attributes ident channel =
     \<lparr>getAttributeValue = map_of attributes, getID = ident, getChannelID = channel,
      getTxID = ''tx1'', getTxTimestamp = Some 1700000000, date_now = 1700000000000\<rparr>"

definition ex_patient :: ctx where
  "ex_patient = caller [(''role'', ''patient'')] ''x509::/CN=p1::/CN=ca'' ''main-channel''"

definition ex_doctor :: ctx where
  "ex_doctor =
     caller [(''role'', ''doctor''), (''hospitalID'', ''H1'')] ''x509::/CN=dr1::/CN=ca'' ''main-channel''"

definition ex_record :: json where
  "ex_record =
     JObj [(''name'', JStr ''Ann''), (''hospitalID'', JStr ''H1''), (''sensitivity'', JStr ''low'')]"

definition ex_policy :: "json \<Rightarrow> json" where
  "ex_policy expiry =
     JObj [(''patientId'', JStr ''p1''), (''role'', JStr ''doctor''), (''dataType'', JStr ''ehr''),
           (''permissions'', JArr [JStr ''read'']), (''expiry'', expiry)]"

definition ex_store :: store where
  "ex_store = [((''ehr'', [''p1'']), ex_record)]"

definition ex_granted :: "json \<Rightarrow> store" where
  "ex_granted expiry =
     [((''ehr'', [''p1'']), ex_record), ((''policy'', [''p1'', ''doctor'', ''ehr'']), ex_policy expiry)]"

definition ex_patient12 :: ctx where
  "ex_patient12 = caller [(''role'', ''patient'')] ''x509::/CN=p12::/CN=ca'' ''main-channel''"

definition ex_admin :: ctx where
  "ex_admin =
     caller [(''role'', ''admin''), (''hospitalID'', ''H1'')] ''x509::/CN=admin1::/CN=ca'' ''audit-channel''"

definition ex_admin_no_timestamp :: ctx where
  "ex_admin_no_timestamp = ex_admin\<lparr>getTxTimestamp := None\<rparr>"

definition ex_secret :: json where
  "ex_secret =
     JObj [(''name'', JStr ''Ann''), (''hospitalID'', JStr ''H1''), (''sensitivity'', JStr ''high'')]"

definition ex_secret_granted :: store where
  "ex_secret_granted =
     [((''ehr'', [''p1'']), ex_secret), ((''policy'', [''p1'', ''doctor'', ''ehr'']), ex_policy JNull)]"

definition ex_patient_low :: ctx where
  "ex_patient_low =
     caller [(''role'', ''patient''), (''hospitalID'', ''H2''), (''clearance'', ''low'')]
       ''x509::/CN=p1::/CN=ca'' ''main-channel''"

definition ex_doctor_H2 :: ctx where
  "ex_doctor_H2 =
     caller [(''role'', ''doctor''), (''hospitalID'', ''H2'')] ''x509::/CN=dr2::/CN=ca'' ''main-channel''"

definition ex_entry :: "int \<Rightarrow> string \<Rightarrow> json" where
  "ex_entry t patientId =
     JObj [(''timestamp'', JNum t), (''user'', JStr ''x509::/CN=admin1::/CN=ca''),
           (''channel'', JStr ''audit-channel''), (''action'', JStr ''createPatient''),
           (''details'', JObj [(''patientId'', JStr patientId), (''hospitalID'', JStr ''H1'')])]"

definition ex_audit_store :: store where
  "ex_audit_store =
     [((''audit'', [''tx8'']), ex_entry 5 ''p1''), ((''audit'', [''tx9'']), ex_entry 7 ''p2''),
      ((''ehr'', [''p1'']), ex_record)]"

definition ex_patient_audit :: ctx where
  "ex_patient_audit = caller [(''role'', ''patient'')] ''x509::/CN=p1::/CN=ca'' ''audit-channel''"

definition ex_insurance_record :: json where
  "ex_insurance_record =
     JObj [(''policy'', JStr ''gold''), (''hospitalID'', JStr ''H1''), (''sensitivity'', JStr ''low'')]"

definition ex_insurance_store :: store where
  "ex_insurance_store =
     [((''insurance'', [''p1'']), ex_insurance_record),
      ((''policy'', [''p1'', ''insurance'', ''insurance'']),
       JObj [(''patientId'', JStr ''p1''), (''role'', JStr ''insurance''),
             (''dataType'', JStr ''insurance''), (''permissions'', JArr [JStr ''read'']),
             (''expiry'', JNull)])]"

definition ex_insurer :: "string \<Rightarrow> ctx" where
  "ex_insurer channel =
     caller [(''role'', ''insurance''), (''hospitalID'', ''H1'')] ''x509::/CN=ins1::/CN=ca'' channel"

section \<open>Basic facts\<close>

lemma andThen_Inl [simp]: "andThen (Inl e) f = Inl e"
  by (simp add: andThen_def)

lemma andThen_Inr [simp]: "andThen (Inr x) f = f x"
  by (simp add: andThen_def)

lemma andThen_eq_Inr: "andThen m f = Inr y \<longleftrightarrow> (\<exists>x. m = Inr x \<and> f x = Inr y)"
  by (cases m) simp_all

lemma str_includes_sublist: "str_includes s t \<longleftrightarrow> sublist t s"
  by (induction s) (simp_all add: sublist_Cons_right)

lemma str_includes_iff: "str_includes s t \<longleftrightarrow> (\<exists>u v. s = u @ t @ v)"
  by (simp add: str_includes_sublist sublist_def)

lemma getState_putState: "getState (putState s k v) k' = (if k' = k then Some v else getState s k')"
  by (simp add: getState_def putState_def update_conv')

lemma getState_deleteState: "getState (deleteState s k) k' = (if k' = k then None else getState s k')"
  by (simp add: getState_def deleteState_def delete_conv')

text \<open>The JavaScript operations on documents throw nothing but \<open>TypeError\<close>.\<close>

lemma get_prop_error: "get_prop j p = Inl e \<Longrightarrow> e = TypeError"
  by (cases j) simp_all

lemma get_prop_opt_error: "get_prop_opt v p = Inl e \<Longrightarrow> e = TypeError"
  by (cases v) (auto dest: get_prop_error)

lemma set_prop_error: "set_prop j p v = Inl e \<Longrightarrow> e = TypeError"
  by (cases j; cases v) simp_all

lemma js_includes_error: "js_includes v x = Inl e \<Longrightarrow> e = TypeError"
  by (cases "(v, x)" rule: js_includes.cases) simp_all

lemma requireRole_patient:
  "getAttributeValue ctx ''role'' = Some ''patient'' \<Longrightarrow> requireRole ctx [''patient''] = Inr ''patient''"
  by (simp add: requireRole_def)

lemma logAudit_not_denied: "logAudit ctx s action details \<noteq> Inl (Error (''Access denied: '' @ m))"
  by (simp add: logAudit_def split: option.splits)

section \<open>Ownership of a patient's record\<close>

text \<open>
  C9. For a caller with role patient, the ownership check of \<^verbatim>\<open>readMyRecord\<close>,
  \<^verbatim>\<open>updateMyRecord\<close>, \<^verbatim>\<open>grantAccess\<close> and \<^verbatim>\<open>revokeAccess\<close> rejects the call exactly
  when the caller's identifier does not contain the patientId as a substring. So the
  patient \<open>p12\<close>, whose identifier contains \<open>p1\<close>, reads the record of \<open>p1\<close>.
\<close>

theorem C9_ownership_by_substring:
  assumes "getAttributeValue ctx ''role'' = Some ''patient''"
  shows
    "((readMyRecord ctx s patientId dataType
         = Inl (Error ''Access denied: Can only read your own record''))
        \<longleftrightarrow> \<not> (\<exists>u v. getID ctx = u @ patientId @ v))
     \<and> ((updateMyRecord ctx s patientId dataType payload
         = Inl (Error ''Access denied: Can only update your own record''))
        \<longleftrightarrow> \<not> (\<exists>u v. getID ctx = u @ patientId @ v))
     \<and> ((grantAccess ctx s patientId role dataType permissions expiry
         = Inl (Error ''Access denied: Can only grant access for your own record''))
        \<longleftrightarrow> \<not> (\<exists>u v. getID ctx = u @ patientId @ v))
     \<and> ((revokeAccess ctx s patientId role dataType
         = Inl (Error ''Access denied: Can only revoke access for your own record''))
        \<longleftrightarrow> \<not> (\<exists>u v. getID ctx = u @ patientId @ v))
     \<and> getID ex_patient12 \<noteq> getID ex_patient
     \<and> readMyRecord ex_patient12 ex_store ''p1'' ''ehr'' = Inr (ex_record, ex_store)"
proof -
  have r: "requireRole ctx [''patient''] = Inr ''patient''"
    using assms by (rule requireRole_patient)
  note la = logAudit_not_denied [of ctx]
  have 1: "(readMyRecord ctx s patientId dataType
         = Inl (Error ''Access denied: Can only read your own record''))
        \<longleftrightarrow> \<not> str_includes (getID ctx) patientId"
    using la
    by (auto simp: readMyRecord_def r readState_def andThen_def split: option.splits sum.splits)
  have 2: "(updateMyRecord ctx s patientId dataType payload
         = Inl (Error ''Access denied: Can only update your own record''))
        \<longleftrightarrow> \<not> str_includes (getID ctx) patientId"
    using la
    by (auto simp: updateMyRecord_def r readState_def andThen_def JSON_parse_def Let_def
             split: option.splits sum.splits dest: get_prop_error set_prop_error)
  have 3: "(grantAccess ctx s patientId role dataType permissions expiry
         = Inl (Error ''Access denied: Can only grant access for your own record''))
        \<longleftrightarrow> \<not> str_includes (getID ctx) patientId"
    using la
    by (auto simp: grantAccess_def r andThen_def Let_def split: option.splits sum.splits)
  have 4: "(revokeAccess ctx s patientId role dataType
         = Inl (Error ''Access denied: Can only revoke access for your own record''))
        \<longleftrightarrow> \<not> str_includes (getID ctx) patientId"
    using la
    by (auto simp: revokeAccess_def r readState_def andThen_def Let_def split: option.splits sum.splits)
  have 5: "getID ex_patient12 \<noteq> getID ex_patient"
    by (simp add: ex_patient12_def ex_patient_def caller_def)
  have 6: "readMyRecord ex_patient12 ex_store ''p1'' ''ehr'' = Inr (ex_record, ex_store)"
    by code_simp
  show ?thesis
    using 1 2 3 4 5 6 by (simp only: str_includes_iff simp_thms)
qed

theorem C9_ownership_by_substring_witness:
  "getAttributeValue ex_patient ''role'' = Some ''patient''
   \<and> ((readMyRecord ex_patient ex_store ''p2'' ''ehr''
         = Inl (Error ''Access denied: Can only read your own record''))
        \<longleftrightarrow> \<not> (\<exists>u v. getID ex_patient = u @ ''p2'' @ v))
   \<and> readMyRecord ex_patient12 ex_store ''p1'' ''ehr'' = Inr (ex_record, ex_store)"
proof -
  have h: "getAttributeValue ex_patient ''role'' = Some ''patient''"
    by (simp add: ex_patient_def caller_def)
  show ?thesis
    using h C9_ownership_by_substring [OF h, of ex_store "''p2''" "''ehr''"] by blast
qed

section \<open>Creating a patient twice\<close>

text \<open>
  C8. When an ehr record is stored under the key of the patientId, \<^verbatim>\<open>createPatient\<close>
  for that patientId fails and the world state stays as it is; for an admin whose
  hospital is the one given, the error is that the patient already exists. A key of the
  world state has one record: \<^const>\<open>getState\<close> is a function of the key, and a
  successful \<^verbatim>\<open>createPatient\<close> leaves a record under the key (\<open>createPatient_stores\<close>),
  so the next one meets it.
\<close>

theorem C8_create_existing_patient:
  assumes "getState s (createCompositeKey ''ehr'' [patientId]) = Some r"
  shows "\<exists>e. createPatient ctx s patientId hospitalID patientDataJson = Inl e
           \<and> commit s (createPatient ctx s patientId hospitalID patientDataJson) = (Inl e, s)
           \<and> (getAttributeValue ctx ''role'' = Some ''admin''
                \<and> getAttributeValue ctx ''hospitalID'' = Some hospitalID
              \<longrightarrow> e = Error (''Patient '' @ patientId @ '' already exists''))"
proof -
  have "\<exists>e. createPatient ctx s patientId hospitalID patientDataJson = Inl e
           \<and> (getAttributeValue ctx ''role'' = Some ''admin''
                \<and> getAttributeValue ctx ''hospitalID'' = Some hospitalID
              \<longrightarrow> e = Error (''Patient '' @ patientId @ '' already exists''))"
    using assms
    by (auto simp: createPatient_def requireRole_def getAttr_def assertEquals_def andThen_def
          split: option.splits sum.splits)
  then show ?thesis
    by (auto simp: commit_def)
qed

theorem C8_create_existing_patient_witness:
  "getState ex_store (createCompositeKey ''ehr'' [''p1'']) = Some ex_record
   \<and> createPatient ex_admin ex_store ''p1'' ''H1'' (Some (JObj []))
       = Inl (Error ''Patient p1 already exists'')
   \<and> commit ex_store (createPatient ex_admin ex_store ''p1'' ''H1'' (Some (JObj [])))
       = (Inl (Error ''Patient p1 already exists''), ex_store)"
proof -
  have h: "getState ex_store (createCompositeKey ''ehr'' [''p1'']) = Some ex_record"
    by (simp add: getState_def ex_store_def createCompositeKey_def)
  have a: "getAttributeValue ex_admin ''role'' = Some ''admin''
            \<and> getAttributeValue ex_admin ''hospitalID'' = Some ''H1''"
    by (simp add: ex_admin_def caller_def)
  show ?thesis
    using h a C8_create_existing_patient [OF h, of ex_admin "''H1''" "Some (JObj [])"]
    by auto
qed

lemma createPatient_stores:
  assumes "createPatient ctx s patientId hospitalID patientDataJson = Inr (res, s')"
  shows "\<exists>v. getState s' (createCompositeKey ''ehr'' [patientId]) = Some v"
proof -
  from assms obtain d where
    "logAudit ctx (writeState s (createCompositeKey ''ehr'' [patientId]) d) ''createPatient''
       (JObj [(''patientId'', JStr patientId), (''hospitalID'', JStr hospitalID)]) = Inr s'"
    by (auto simp: createPatient_def andThen_eq_Inr Let_def split: option.splits)
  then show ?thesis
    by (auto simp: logAudit_def writeState_def getState_putState createCompositeKey_def
          split: if_splits option.splits)
qed

section \<open>The gates of the delegated and the nurse read\<close>

lemma policy_applies_error: "policy_applies ctx policy permission = Inl e \<Longrightarrow> e = TypeError"
  by (auto simp: policy_applies_def andThen_def split: sum.splits if_splits
      dest: get_prop_error js_includes_error)

lemma is_access_denied_simps [simp]:
  "is_access_denied (Error m) \<longleftrightarrow> prefix ''Access denied: '' m"
  "\<not> is_access_denied TypeError"
  "\<not> is_access_denied SyntaxError"
  "\<not> is_access_denied (StateDoesNotExist k)"
  by (simp_all add: is_access_denied_def)

lemma requireRole_denied: "requireRole ctx roles = Inl e \<Longrightarrow> is_access_denied e"
  by (auto simp: requireRole_def role_required_def split: option.splits if_splits)

lemma requireRole_Inr: "requireRole ctx roles = Inr r \<Longrightarrow> getAttributeValue ctx ''role'' = Some r"
  by (auto simp: requireRole_def split: option.splits if_splits)

lemma gated_record_high:
  assumes "getState s (createCompositeKey dataType [patientId]) = Some record"
    and "get_prop record ''sensitivity'' = Inr (Some (JStr ''high''))"
    and "getAttributeValue ctx ''clearance'' \<noteq> Some ''high''"
  shows "\<exists>e. gated_record ctx s patientId dataType h = Inl e \<and> is_access_denied e"
proof -
  obtain fs where fs: "record = JObj fs"
    using assms(2) by (cases "record") simp_all
  have c: "\<exists>c. getAttr ctx ''clearance'' (Some ''low'') = Inr c \<and> c \<noteq> ''high''"
    using assms(3) by (auto simp: getAttr_def split: option.splits)
  show ?thesis
    using assms(1,2) c fs
    by (auto simp: gated_record_def readState_def assertEquals_def)
qed

lemma gated_record_other_hospital:
  assumes "getState s (createCompositeKey dataType [patientId]) = Some record"
    and "get_prop record ''hospitalID'' = Inr (Some (JStr h2))"
    and "h \<noteq> h2"
  shows "\<exists>e. gated_record ctx s patientId dataType h = Inl e \<and> is_access_denied e"
  using assms by (auto simp: gated_record_def readState_def assertEquals_def)

lemma policy_loop_refused:
  assumes "\<exists>e. gated_record ctx s patientId dataType h = Inl e \<and> is_access_denied e"
  shows "(\<exists>e it. policy_loop ctx s patientId dataType permission h rs = (Inl e, it)
             \<and> (is_access_denied e \<or> e = TypeError))
         \<or> policy_loop ctx s patientId dataType permission h rs = (Inr None, IteratorClosed)"
proof (induction rs)
  case Nil
  then show ?case by simp
next
  case (Cons r rs)
  obtain k policy where r: "r = (k, policy)" by (cases r)
  show ?case
  proof (cases "policy_applies ctx policy permission")
    case (Inl e)
    then show ?thesis using r by (auto dest: policy_applies_error)
  next
    case (Inr b)
    then show ?thesis using r assms Cons.IH by (cases b) auto
  qed
qed

lemma checkAccessPolicy_refused:
  assumes "\<And>h. getAttributeValue ctx ''hospitalID'' = Some h \<Longrightarrow>
             \<exists>e. gated_record ctx s patientId dataType h = Inl e \<and> is_access_denied e"
  shows "read_refused (checkAccessPolicy ctx s patientId dataType permission)"
proof (cases "getAttributeValue ctx ''role''")
  case None
  then show ?thesis
    by (simp add: checkAccessPolicy_def checkAccessPolicy_run_def getAttr_def read_refused_def)
next
  case (Some role)
  show ?thesis
  proof (cases "getAttributeValue ctx ''hospitalID''")
    case None
    then show ?thesis using Some
      by (simp add: checkAccessPolicy_def checkAccessPolicy_run_def getAttr_def read_refused_def)
  next
    case h: (Some h)
    from policy_loop_refused [OF assms [OF h], of permission

        "getStateByPartialCompositeKey s ''policy'' [patientId, role, dataType]"]
    show ?thesis using Some h
      by (auto simp: checkAccessPolicy_def checkAccessPolicy_run_def getAttr_def read_refused_def
            no_access_def)
  qed
qed

lemma read_refused_andThen:
  "read_refused m \<Longrightarrow> read_refused (andThen m f)"
  by (cases m) (simp_all add: read_refused_def)

lemma doctor_read_refused:
  assumes "read_refused (checkAccessPolicy ctx s patientId dataType ''read'')"
  shows "read_refused (doctor_readPatientRecord ctx s patientId dataType)"
proof (cases "requireRole ctx [''doctor'']")
  case (Inl e)
  then show ?thesis
    by (auto simp: doctor_readPatientRecord_def read_refused_def dest: requireRole_denied)
next
  case (Inr r)
  then show ?thesis using assms
    by (simp add: doctor_readPatientRecord_def read_refused_andThen)
qed

lemma insurance_read_refused:
  assumes "read_refused (checkAccessPolicy ctx s patientId ''insurance'' ''read'')"
  shows "read_refused (readInsuranceData ctx s patientId)"
proof (cases "requireRole ctx [''insurance'']")
  case (Inl e)
  then show ?thesis
    by (auto simp: readInsuranceData_def read_refused_def dest: requireRole_denied)
next
  case (Inr r)
  show ?thesis
  proof (cases "getChannelID ctx = ''insurance-channel''")
    case True
    then show ?thesis using Inr assms
      by (simp add: readInsuranceData_def read_refused_andThen)
  next
    case False
    then show ?thesis using Inr
      by (simp add: readInsuranceData_def read_refused_def)
  qed
qed

lemma nurse_read_high:
  assumes "getState s (createCompositeKey dataType [patientId]) = Some record"
    and "get_prop record ''sensitivity'' = Inr (Some (JStr ''high''))"
    and "getAttributeValue ctx ''clearance'' \<noteq> Some ''high''"
  shows "read_refused (nurse_readPatientRecord ctx s patientId dataType)"
proof -
  obtain fs where fs: "record = JObj fs"
    using assms(2) by (cases "record") simp_all
  have c: "\<exists>c. getAttr ctx ''clearance'' (Some ''low'') = Inr c \<and> c \<noteq> ''high''"
    using assms(3) by (auto simp: getAttr_def split: option.splits)
  show ?thesis
  proof (cases "requireRole ctx [''nurse'']")
    case (Inl e)
    then show ?thesis
      by (auto simp: nurse_readPatientRecord_def read_refused_def dest: requireRole_denied)
  next
    case (Inr r)
    then show ?thesis using assms(1,2) c fs
      by (auto simp: nurse_readPatientRecord_def read_refused_def readState_def getAttr_def
            assertEquals_def split: option.splits)
  qed
qed

lemma nurse_read_other_hospital:
  assumes "getAttributeValue ctx ''hospitalID'' = Some h1"
    and "getState s (createCompositeKey dataType [patientId]) = Some record"
    and "get_prop record ''hospitalID'' = Inr (Some (JStr h2))"
    and "h1 \<noteq> h2"
  shows "read_refused (nurse_readPatientRecord ctx s patientId dataType)"
proof (cases "requireRole ctx [''nurse'']")
  case (Inl e)
  then show ?thesis
    by (auto simp: nurse_readPatientRecord_def read_refused_def dest: requireRole_denied)
next
  case (Inr r)
  then show ?thesis using assms
    by (auto simp: nurse_readPatientRecord_def read_refused_def readState_def getAttr_def
          assertEquals_def)
qed

text \<open>
  C1 as stated lists \<^verbatim>\<open>readMyRecord\<close> among the operations gated by clearance. The
  patient contract reads no clearance: the patient \<open>p1\<close> with clearance \<open>low\<close> reads
  the own record of sensitivity \<open>high\<close>.
\<close>

theorem C1_counterexample:
  "getState ex_secret_granted (createCompositeKey ''ehr'' [''p1'']) = Some ex_secret
   \<and> get_prop ex_secret ''sensitivity'' = Inr (Some (JStr ''high''))
   \<and> getAttributeValue ex_patient_low ''clearance'' = Some ''low''
   \<and> readMyRecord ex_patient_low ex_secret_granted ''p1'' ''ehr'' = Inr (ex_secret, ex_secret_granted)"
  by code_simp

text \<open>
  C1, amended. For the delegated check \<^verbatim>\<open>_checkAccessPolicy\<close>, the doctor's and the
  nurse's \<^verbatim>\<open>readPatientRecord\<close> and \<^verbatim>\<open>readInsuranceData\<close>: when the target record
  has sensitivity \<open>high\<close> and the caller's clearance attribute is not \<open>high\<close>, the
  operation is refused and returns no record.
\<close>

theorem C1_high_sensitivity_needs_clearance:
  assumes "getState s (createCompositeKey dataType [patientId]) = Some record"
    and "get_prop record ''sensitivity'' = Inr (Some (JStr ''high''))"
    and "getAttributeValue ctx ''clearance'' \<noteq> Some ''high''"
  shows "read_refused (checkAccessPolicy ctx s patientId dataType permission)
         \<and> read_refused (doctor_readPatientRecord ctx s patientId dataType)
         \<and> read_refused (nurse_readPatientRecord ctx s patientId dataType)
         \<and> (dataType = ''insurance'' \<longrightarrow> read_refused (readInsuranceData ctx s patientId))"
proof -
  have g: "\<And>h. \<exists>e. gated_record ctx s patientId dataType h = Inl e \<and> is_access_denied e"
    using assms by (rule gated_record_high)
  have c: "\<And>p. read_refused (checkAccessPolicy ctx s patientId dataType p)"
    using g by (rule checkAccessPolicy_refused)
  show ?thesis
    using c doctor_read_refused [OF c] insurance_read_refused c nurse_read_high [OF assms]
    by blast
qed

theorem C1_high_sensitivity_needs_clearance_witness:
  "getState ex_secret_granted (createCompositeKey ''ehr'' [''p1'']) = Some ex_secret
   \<and> get_prop ex_secret ''sensitivity'' = Inr (Some (JStr ''high''))
   \<and> getAttributeValue ex_doctor ''clearance'' \<noteq> Some ''high''
   \<and> read_refused (doctor_readPatientRecord ex_doctor ex_secret_granted ''p1'' ''ehr'')
   \<and> doctor_readPatientRecord ex_doctor ex_secret_granted ''p1'' ''ehr''
       = Inl (Error ''Access denied: High sensitivity data requires high clearance'')"
proof -
  have 1: "getState ex_secret_granted (createCompositeKey ''ehr'' [''p1'']) = Some ex_secret"
    by code_simp
  have 2: "get_prop ex_secret ''sensitivity'' = Inr (Some (JStr ''high''))"
    by code_simp
  have 3: "getAttributeValue ex_doctor ''clearance'' \<noteq> Some ''high''"
    by (simp add: ex_doctor_def caller_def)
  have 4: "doctor_readPatientRecord ex_doctor ex_secret_granted ''p1'' ''ehr''
       = Inl (Error ''Access denied: High sensitivity data requires high clearance'')"
    by code_simp
  show ?thesis
    using 1 2 3 4 C1_high_sensitivity_needs_clearance [OF 1 2 3, of "''read''"] by blast
qed

text \<open>
  C2 as stated covers any read. \<^verbatim>\<open>readMyRecord\<close> compares no hospital: the patient
  \<open>p1\<close> with hospitalID \<open>H2\<close> reads the own record stored with hospitalID \<open>H1\<close>.
\<close>

theorem C2_counterexample:
  "getAttributeValue ex_patient_low ''hospitalID'' = Some ''H2''
   \<and> getState (ex_granted JNull) (createCompositeKey ''ehr'' [''p1'']) = Some ex_record
   \<and> get_prop ex_record ''hospitalID'' = Inr (Some (JStr ''H1''))
   \<and> readMyRecord ex_patient_low (ex_granted JNull) ''p1'' ''ehr'' = Inr (ex_record, ex_granted JNull)"
  by code_simp

text \<open>
  C2, amended. For the delegated check, the doctor's and the nurse's
  \<^verbatim>\<open>readPatientRecord\<close> and \<^verbatim>\<open>readInsuranceData\<close>: when the caller's hospitalID
  attribute differs from the hospitalID stored in the target record, the operation is
  refused and returns no record, whatever policies the world state holds.
\<close>

theorem C2_no_cross_hospital_read:
  assumes "getAttributeValue ctx ''hospitalID'' = Some h1"
    and "getState s (createCompositeKey dataType [patientId]) = Some record"
    and "get_prop record ''hospitalID'' = Inr (Some (JStr h2))"
    and "h1 \<noteq> h2"
  shows "read_refused (checkAccessPolicy ctx s patientId dataType permission)
         \<and> read_refused (doctor_readPatientRecord ctx s patientId dataType)
         \<and> read_refused (nurse_readPatientRecord ctx s patientId dataType)
         \<and> (dataType = ''insurance'' \<longrightarrow> read_refused (readInsuranceData ctx s patientId))"
proof -
  have g: "\<And>h. getAttributeValue ctx ''hospitalID'' = Some h \<Longrightarrow>
             \<exists>e. gated_record ctx s patientId dataType h = Inl e \<and> is_access_denied e"
    using assms by (auto intro: gated_record_other_hospital)
  have c: "\<And>p. read_refused (checkAccessPolicy ctx s patientId dataType p)"
    using g by (rule checkAccessPolicy_refused)
  show ?thesis
    using c doctor_read_refused [OF c] insurance_read_refused c nurse_read_other_hospital [OF assms]
    by blast
qed

theorem C2_no_cross_hospital_read_witness:
  "getAttributeValue ex_doctor_H2 ''hospitalID'' = Some ''H2''
   \<and> getState (ex_granted JNull) (createCompositeKey ''ehr'' [''p1'']) = Some ex_record
   \<and> get_prop ex_record ''hospitalID'' = Inr (Some (JStr ''H1''))
   \<and> ''H2'' \<noteq> ''H1''
   \<and> read_refused (doctor_readPatientRecord ex_doctor_H2 (ex_granted JNull) ''p1'' ''ehr'')
   \<and> doctor_readPatientRecord ex_doctor_H2 (ex_granted JNull) ''p1'' ''ehr''
       = Inl (Error ''Access denied: Record belongs to a different hospital'')"
proof -
  have 1: "getAttributeValue ex_doctor_H2 ''hospitalID'' = Some ''H2''"
    by (simp add: ex_doctor_H2_def caller_def)
  have 2: "getState (ex_granted JNull) (createCompositeKey ''ehr'' [''p1'']) = Some ex_record"
    by code_simp
  have 3: "get_prop ex_record ''hospitalID'' = Inr (Some (JStr ''H1''))"
    by code_simp
  have 4: "''H2'' \<noteq> ''H1''"
    by simp
  have 5: "doctor_readPatientRecord ex_doctor_H2 (ex_granted JNull) ''p1'' ''ehr''
       = Inl (Error ''Access denied: Record belongs to a different hospital'')"
    by code_simp
  show ?thesis
    using 1 2 3 4 5 C2_no_cross_hospital_read [OF 1 2 3 4, of "''read''"] by blast
qed

section \<open>Audit entries and the audit channel\<close>

text \<open>
  \<^verbatim>\<open>_logAudit\<close> is the audit step of every audited operation. On the audit channel it
  throws when the transaction timestamp is missing, and the operation fails with it;
  with a timestamp it writes one entry under the key of the transaction id and changes
  no other key; on any other channel it returns the world state as it is.
\<close>

lemma logAudit_without_timestamp:
  "getChannelID ctx = ''audit-channel'' \<Longrightarrow> getTxTimestamp ctx = None \<Longrightarrow>
   logAudit ctx s action details = Inl (Error ''Failed to get transaction timestamp'')"
  by (simp add: logAudit_def)

lemma createPatient_without_timestamp:
  "createPatient ex_admin_no_timestamp [] ''p2'' ''H1'' (Some (JObj []))
     = Inl (Error ''Failed to get transaction timestamp'')"
  by code_simp

lemma logAudit_step:
  "(getChannelID ctx = ''audit-channel'' \<longrightarrow>
      (\<forall>s'. logAudit ctx s action details = Inr s' \<longrightarrow>
         (\<exists>secs. getTxTimestamp ctx = Some secs
            \<and> s' = putState s (createCompositeKey ''audit'' [getTxID ctx])
                     (auditData ctx secs action details)
            \<and> getState s' (createCompositeKey ''audit'' [getTxID ctx])
                = Some (auditData ctx secs action details))
         \<and> (\<forall>k. k \<noteq> createCompositeKey ''audit'' [getTxID ctx] \<longrightarrow> getState s' k = getState s k))
      \<and> (getTxTimestamp ctx \<noteq> None \<longrightarrow> (\<exists>s'. logAudit ctx s action details = Inr s')))
   \<and> (getChannelID ctx \<noteq> ''audit-channel'' \<longrightarrow> logAudit ctx s action details = Inr s)"
  by (auto simp: logAudit_def getState_putState split: option.splits)

lemma logAudit_other_channel:
  "getChannelID ctx \<noteq> ''audit-channel'' \<Longrightarrow> logAudit ctx s action details = Inr s"
  by (simp add: logAudit_def)

lemma andThen_assoc: "andThen (andThen m f) g = andThen m (\<lambda>x. andThen (f x) g)"
  by (cases m) simp_all

lemma andThen_if: "andThen (if b then x else y) g = (if b then andThen x g else andThen y g)"
  by simp

lemma andThen_case_option:
  "andThen (case v of None \<Rightarrow> x | Some a \<Rightarrow> y a) g
     = (case v of None \<Rightarrow> andThen x g | Some a \<Rightarrow> andThen (y a) g)"
  by (cases v) simp_all

lemma logAudit_on_audit_channel:
  "getChannelID ctx = ''audit-channel'' \<Longrightarrow> getTxTimestamp ctx = Some secs \<Longrightarrow>
   logAudit ctx s action details
     = Inr (putState s (createCompositeKey ''audit'' [getTxID ctx]) (auditData ctx secs action details))"
  by (simp add: logAudit_def)

lemma logAudit_off_audit_channel:
  "c \<noteq> ''audit-channel'' \<Longrightarrow> logAudit (ctx\<lparr>getChannelID := c\<rparr>) s action details = Inr s"
  by (simp add: logAudit_def)

text \<open>Nothing but the audit step reads the channel, the insurer's operations apart.\<close>

lemma requireRole_channel: "requireRole (ctx\<lparr>getChannelID := c\<rparr>) roles = requireRole ctx roles"
  by (simp add: requireRole_def)

lemma getAttr_channel: "getAttr (ctx\<lparr>getChannelID := c\<rparr>) a d = getAttr ctx a d"
  by (simp add: getAttr_def)

lemma policy_applies_channel:
  "policy_applies (ctx\<lparr>getChannelID := c\<rparr>) policy permission = policy_applies ctx policy permission"
  by (simp add: policy_applies_def cong: if_cong)

lemma gated_record_channel:
  "gated_record (ctx\<lparr>getChannelID := c\<rparr>) s patientId dataType h = gated_record ctx s patientId dataType h"
  by (simp add: gated_record_def getAttr_channel)

lemma policy_loop_channel:
  "policy_loop (ctx\<lparr>getChannelID := c\<rparr>) s patientId dataType permission h rs
     = policy_loop ctx s patientId dataType permission h rs"
  by (induction rs)
     (auto simp: policy_applies_channel gated_record_channel split: sum.splits bool.splits)

lemma no_access_channel:
  "no_access (ctx\<lparr>getChannelID := c\<rparr>) permission role dataType patientId
     = no_access ctx permission role dataType patientId"
  by (simp add: no_access_def)

lemma checkAccessPolicy_channel:
  "checkAccessPolicy (ctx\<lparr>getChannelID := c\<rparr>) s patientId dataType permission
     = checkAccessPolicy ctx s patientId dataType permission"
  by (simp add: checkAccessPolicy_def checkAccessPolicy_run_def getAttr_channel
        policy_loop_channel no_access_channel split: sum.splits prod.splits option.splits)

text \<open>
  On the audit channel, an operation other than the insurer's does what it does on
  another channel and then adds the audit entry.
\<close>

lemma run_adds_audit_entry:
  assumes a: "getChannelID ctx = ''audit-channel''" and t: "getTxTimestamp ctx = Some secs"
    and c: "c \<noteq> ''audit-channel''" and i: "\<not> insurer_operation op"
  shows "run ctx s op = andThen (run (ctx\<lparr>getChannelID := c\<rparr>) s op) (with_audit_entry ctx secs op)"
proof (cases op)
  case (CreatePatient patientId hospitalID patientDataJson)
  show ?thesis
    unfolding CreatePatient run.simps createPatient_def
    by (simp add: andThen_assoc andThen_case_option andThen_if Let_def with_audit_entry_def
          logAudit_on_audit_channel [OF a t] logAudit_off_audit_channel [OF c]
          requireRole_channel getAttr_channel checkAccessPolicy_channel
          cong: option.case_cong if_cong)
next
  case (DeletePatient patientId)
  show ?thesis
    unfolding DeletePatient run.simps deletePatient_def
    by (simp add: andThen_assoc andThen_case_option andThen_if Let_def with_audit_entry_def
          logAudit_on_audit_channel [OF a t] logAudit_off_audit_channel [OF c]
          requireRole_channel getAttr_channel checkAccessPolicy_channel
          cong: option.case_cong if_cong)
next
  case GetAllPatients
  show ?thesis
    unfolding GetAllPatients run.simps getAllPatients_def
    by (simp add: andThen_assoc andThen_case_option andThen_if Let_def with_audit_entry_def
          logAudit_on_audit_channel [OF a t] logAudit_off_audit_channel [OF c]
          requireRole_channel getAttr_channel checkAccessPolicy_channel
          cong: option.case_cong if_cong)
next
  case (ReadMyRecord patientId dataType)
  show ?thesis
    unfolding ReadMyRecord run.simps readMyRecord_def
    by (simp add: andThen_assoc andThen_case_option andThen_if Let_def with_audit_entry_def
          logAudit_on_audit_channel [OF a t] logAudit_off_audit_channel [OF c]
          requireRole_channel getAttr_channel checkAccessPolicy_channel
          cong: option.case_cong if_cong)
next
  case (UpdateMyRecord patientId dataType updatedDataJson)
  show ?thesis
    unfolding UpdateMyRecord run.simps updateMyRecord_def
    by (simp add: andThen_assoc andThen_case_option andThen_if Let_def with_audit_entry_def
          logAudit_on_audit_channel [OF a t] logAudit_off_audit_channel [OF c]
          requireRole_channel getAttr_channel checkAccessPolicy_channel
          cong: option.case_cong if_cong)
next
  case (GrantAccess patientId role dataType permissions expiry)
  show ?thesis
    unfolding GrantAccess run.simps grantAccess_def
    by (simp add: andThen_assoc andThen_case_option andThen_if Let_def with_audit_entry_def
          logAudit_on_audit_channel [OF a t] logAudit_off_audit_channel [OF c]
          requireRole_channel getAttr_channel checkAccessPolicy_channel
          cong: option.case_cong if_cong)
next
  case (RevokeAccess patientId role dataType)
  show ?thesis
    unfolding RevokeAccess run.simps revokeAccess_def
    by (simp add: andThen_assoc andThen_case_option andThen_if Let_def with_audit_entry_def
          logAudit_on_audit_channel [OF a t] logAudit_off_audit_channel [OF c]
          requireRole_channel getAttr_channel checkAccessPolicy_channel
          cong: option.case_cong if_cong)
next
  case (DoctorReadPatientRecord patientId dataType)
  show ?thesis
    unfolding DoctorReadPatientRecord run.simps doctor_readPatientRecord_def
    by (simp add: andThen_assoc andThen_case_option andThen_if Let_def with_audit_entry_def
          logAudit_on_audit_channel [OF a t] logAudit_off_audit_channel [OF c]
          requireRole_channel getAttr_channel checkAccessPolicy_channel
          cong: option.case_cong if_cong)
next
  case (UpdatePatientRecord patientId dataType updatedDataJson)
  show ?thesis
    unfolding UpdatePatientRecord run.simps updatePatientRecord_def
    by (simp add: andThen_assoc andThen_case_option andThen_if Let_def with_audit_entry_def
          logAudit_on_audit_channel [OF a t] logAudit_off_audit_channel [OF c]
          requireRole_channel getAttr_channel checkAccessPolicy_channel
          cong: option.case_cong if_cong)
next
  case (CreateLabReport patientId labId labDataJson)
  show ?thesis
    unfolding CreateLabReport run.simps createLabReport_def
    by (simp add: andThen_assoc andThen_case_option andThen_if Let_def with_audit_entry_def
          logAudit_on_audit_channel [OF a t] logAudit_off_audit_channel [OF c]
          requireRole_channel getAttr_channel checkAccessPolicy_channel
          cong: option.case_cong if_cong)
next
  case (CreatePrescription patientId prescriptionId prescriptionDataJson)
  show ?thesis
    unfolding CreatePrescription run.simps createPrescription_def
    by (simp add: andThen_assoc andThen_case_option andThen_if Let_def with_audit_entry_def
          logAudit_on_audit_channel [OF a t] logAudit_off_audit_channel [OF c]
          requireRole_channel getAttr_channel checkAccessPolicy_channel
          cong: option.case_cong if_cong)
next
  case (NurseReadPatientRecord patientId dataType)
  show ?thesis
    unfolding NurseReadPatientRecord run.simps nurse_readPatientRecord_def
    by (simp add: andThen_assoc andThen_case_option andThen_if Let_def with_audit_entry_def
          logAudit_on_audit_channel [OF a t] logAudit_off_audit_channel [OF c]
          requireRole_channel getAttr_channel checkAccessPolicy_channel
          cong: option.case_cong if_cong)
qed (insert i, simp_all)

lemma insurer_refused_on_audit_channel:
  assumes "getChannelID ctx = ''audit-channel''" and "insurer_operation op"
  shows "\<exists>e. run ctx s op = Inl e \<and> is_access_denied e"
proof (cases "requireRole ctx [''insurance'']")
  case (Inl e)
  then show ?thesis using assms(2)
    by (cases op) (auto simp: readInsuranceData_def updateInsuranceData_def dest: requireRole_denied)
next
  case (Inr r)
  then show ?thesis using assms
    by (cases op) (auto simp: readInsuranceData_def updateInsuranceData_def)
qed

lemma run_needs_timestamp:
  assumes a: "getChannelID ctx = ''audit-channel''" and t: "getTxTimestamp ctx = None"
  shows "\<exists>e. run ctx s op = Inl e"
proof -
  have l: "\<And>s action details x. andThen (logAudit ctx s action details) x
             = Inl (Error ''Failed to get transaction timestamp'')"
    by (simp add: logAudit_without_timestamp [OF a t])
  have "\<not> (\<exists>r. run ctx s op = Inr r)"
    by (cases op)
       (auto simp: createPatient_def deletePatient_def getAllPatients_def readMyRecord_def
          updateMyRecord_def grantAccess_def revokeAccess_def doctor_readPatientRecord_def
          updatePatientRecord_def createLabReport_def createPrescription_def
          nurse_readPatientRecord_def readInsuranceData_def updateInsuranceData_def
          andThen_eq_Inr l Let_def split: option.splits if_splits)
  then show ?thesis
    by (cases "run ctx s op") auto
qed

text \<open>Off the audit channel, a successful operation changes no key but its own.\<close>

lemma run_writes_own_key:
  assumes c: "getChannelID ctx \<noteq> ''audit-channel''" and r: "run ctx s op = Inr (res, s0)"
    and k: "Some k \<noteq> target op"
  shows "getState s0 k = getState s k"
proof -
  note l = logAudit_other_channel [OF c]
  have "s0 = s \<or> (\<exists>k' d. target op = Some k' \<and> s0 = putState s k' d)
          \<or> (\<exists>k'. target op = Some k' \<and> s0 = deleteState s k')"
    using r
    by (cases op)
       (auto simp: createPatient_def deletePatient_def getAllPatients_def readMyRecord_def
          updateMyRecord_def grantAccess_def revokeAccess_def doctor_readPatientRecord_def
          updatePatientRecord_def createLabReport_def createPrescription_def
          nurse_readPatientRecord_def readInsuranceData_def updateInsuranceData_def
          andThen_eq_Inr l Let_def writeState_def split: option.splits if_splits)
  then show ?thesis
    using k by (auto simp: getState_putState getState_deleteState)
qed

text \<open>
  C5 as stated: every audited operation writes exactly one audit entry when the channel
  is the audit channel, and still succeeds on any other channel. The insurer's two
  operations are gated to \<^verbatim>\<open>insurance-channel\<close>: \<^verbatim>\<open>readInsuranceData\<close> succeeds
  there, and is refused on the audit channel, where it writes no entry, and on any
  third channel. And on the audit channel without a transaction timestamp an operation
  throws at its audit step.
\<close>

theorem C5_counterexample:
  "getChannelID (ex_insurer ''audit-channel'') = ''audit-channel''
   \<and> run (ex_insurer ''insurance-channel'') ex_insurance_store (ReadInsuranceData ''p1'')
       = Inr (ex_insurance_record, ex_insurance_store)
   \<and> run (ex_insurer ''audit-channel'') ex_insurance_store (ReadInsuranceData ''p1'')
       = Inl (Error ''Access denied: Insurance data only accessible on insurance-channel'')
   \<and> run (ex_insurer ''main-channel'') ex_insurance_store (ReadInsuranceData ''p1'')
       = Inl (Error ''Access denied: Insurance data only accessible on insurance-channel'')
   \<and> getChannelID ex_admin_no_timestamp = ''audit-channel''
   \<and> run ex_admin_no_timestamp [] (CreatePatient ''p2'' ''H1'' (Some (JObj [])))
       = Inl (Error ''Failed to get transaction timestamp'')"
  by code_simp

text \<open>
  C5, amended. For every audited operation other than the insurer's two: on the audit
  channel, with a transaction timestamp, the operation has the outcome it has on any
  other channel, and where that is a success its final state is the one of the other
  channel with exactly one audit entry added, under the key of the transaction id. Off
  the audit channel a successful operation, of the insurer too, changes no key but its
  own, so it writes no audit entry, and the channel mismatch is no error. On the audit
  channel the insurer's operations are refused with an access-denied error, and without
  a transaction timestamp every operation fails.
\<close>

theorem C5_audited_operations:
  "(getChannelID ctx = ''audit-channel'' \<and> getTxTimestamp ctx = Some secs
      \<and> c \<noteq> ''audit-channel'' \<and> \<not> insurer_operation op \<longrightarrow>
        run ctx s op = andThen (run (ctx\<lparr>getChannelID := c\<rparr>) s op) (with_audit_entry ctx secs op))
   \<and> (getChannelID ctx \<noteq> ''audit-channel'' \<and> run ctx s op = Inr (res, s0) \<longrightarrow>
        (\<forall>k. Some k \<noteq> target op \<longrightarrow> getState s0 k = getState s k))
   \<and> (getChannelID ctx = ''audit-channel'' \<and> insurer_operation op \<longrightarrow>
        (\<exists>e. run ctx s op = Inl e \<and> is_access_denied e))
   \<and> (getChannelID ctx = ''audit-channel'' \<and> getTxTimestamp ctx = None \<longrightarrow>
        (\<exists>e. run ctx s op = Inl e))"
  using run_adds_audit_entry [of ctx secs c op s] run_writes_own_key [of ctx s op res s0]
    insurer_refused_on_audit_channel [of ctx op s] run_needs_timestamp [of ctx s op]
  by blast

theorem C5_audited_operations_witness:
  "getChannelID ex_admin = ''audit-channel'' \<and> getTxTimestamp ex_admin = Some 1700000000
   \<and> ''main-channel'' \<noteq> ''audit-channel''
   \<and> \<not> insurer_operation (CreatePatient ''p2'' ''H1'' (Some (JObj [])))
   \<and> run (ex_admin\<lparr>getChannelID := ''main-channel''\<rparr>) ex_store (CreatePatient ''p2'' ''H1'' (Some (JObj [])))
       = Inr (success ''Patient p2 created'',
              [((''ehr'', [''p1'']), ex_record),
               ((''ehr'', [''p2'']), JObj [(''hospitalID'', JStr ''H1''), (''sensitivity'', JStr ''low'')])])
   \<and> run ex_admin ex_store (CreatePatient ''p2'' ''H1'' (Some (JObj [])))
       = Inr (success ''Patient p2 created'',
              [((''ehr'', [''p1'']), ex_record),
               ((''ehr'', [''p2'']), JObj [(''hospitalID'', JStr ''H1''), (''sensitivity'', JStr ''low'')]),
               ((''audit'', [''tx1'']),
                auditData ex_admin 1700000000 ''createPatient''
                  (JObj [(''patientId'', JStr ''p2''), (''hospitalID'', JStr ''H1'')]))])
   \<and> getChannelID (ex_admin\<lparr>getChannelID := ''main-channel''\<rparr>) \<noteq> ''audit-channel''
   \<and> getState [((''ehr'', [''p1'']), ex_record),
               ((''ehr'', [''p2'']), JObj [(''hospitalID'', JStr ''H1''), (''sensitivity'', JStr ''low'')])]
        (createCompositeKey ''audit'' [''tx1''])
       = getState ex_store (createCompositeKey ''audit'' [''tx1''])
   \<and> insurer_operation (ReadInsuranceData ''p1'')
   \<and> (\<exists>e. run ex_admin ex_store (ReadInsuranceData ''p1'') = Inl e \<and> is_access_denied e)
   \<and> getTxTimestamp ex_admin_no_timestamp = None
   \<and> (\<exists>e. run ex_admin_no_timestamp ex_store (ReadMyRecord ''p1'' ''ehr'') = Inl e)"
proof -
  let ?op = "CreatePatient ''p2'' ''H1'' (Some (JObj []))"
  let ?s0 = "[((''ehr'', [''p1'']), ex_record),
               ((''ehr'', [''p2'']), JObj [(''hospitalID'', JStr ''H1''), (''sensitivity'', JStr ''low'')])]"
  have 1: "getChannelID ex_admin = ''audit-channel'' \<and> getTxTimestamp ex_admin = Some 1700000000"
    by (simp add: ex_admin_def caller_def)
  have 2: "\<not> insurer_operation ?op" by simp
  have 3: "run (ex_admin\<lparr>getChannelID := ''main-channel''\<rparr>) ex_store ?op
             = Inr (success ''Patient p2 created'', ?s0)"
    by code_simp
  have 4: "getChannelID (ex_admin\<lparr>getChannelID := ''main-channel''\<rparr>) \<noteq> ''audit-channel''"
    by simp
  have 5: "Some (createCompositeKey ''audit'' [''tx1'']) \<noteq> target ?op"
    by (simp add: createCompositeKey_def)
  have 6: "getChannelID ex_admin_no_timestamp = ''audit-channel''
            \<and> getTxTimestamp ex_admin_no_timestamp = None"
    by (simp add: ex_admin_no_timestamp_def ex_admin_def caller_def)
  have 7: "getTxID ex_admin = ''tx1''"
    by (simp add: ex_admin_def caller_def)
  from 1 2 C5_audited_operations [of ex_admin 1700000000 "''main-channel''" ?op ex_store]
  have "run ex_admin ex_store ?op
          = andThen (run (ex_admin\<lparr>getChannelID := ''main-channel''\<rparr>) ex_store ?op)
              (with_audit_entry ex_admin 1700000000 ?op)"
    by simp
  then have a: "run ex_admin ex_store ?op
       = Inr (success ''Patient p2 created'',
              ?s0 @ [((''audit'', [''tx1'']),
                auditData ex_admin 1700000000 ''createPatient''
                  (JObj [(''patientId'', JStr ''p2''), (''hospitalID'', JStr ''H1'')]))])"
  proof -
    have e: "andThen (Inr (success ''Patient p2 created'', ?s0))
               (with_audit_entry ex_admin 1700000000 ?op)
             = Inr (success ''Patient p2 created'',
              ?s0 @ [((''audit'', [''tx1'']),
                auditData ex_admin 1700000000 ''createPatient''
                  (JObj [(''patientId'', JStr ''p2''), (''hospitalID'', JStr ''H1'')]))])"
      by code_simp
    assume "run ex_admin ex_store ?op
          = andThen (run (ex_admin\<lparr>getChannelID := ''main-channel''\<rparr>) ex_store ?op)
              (with_audit_entry ex_admin 1700000000 ?op)"
    then show ?thesis
      unfolding 3 e .
  qed
  from 3 4 5
    C5_audited_operations [of "ex_admin\<lparr>getChannelID := ''main-channel''\<rparr>" 0 "''x''" ?op ex_store
      "success ''Patient p2 created''" ?s0]
  have b: "getState ?s0 (createCompositeKey ''audit'' [''tx1''])
            = getState ex_store (createCompositeKey ''audit'' [''tx1''])"
    by blast
  from 1 C5_audited_operations [of ex_admin 0 "''x''" "ReadInsuranceData ''p1''" ex_store]
  have c: "\<exists>e. run ex_admin ex_store (ReadInsuranceData ''p1'') = Inl e \<and> is_access_denied e"
    by simp
  from 6 C5_audited_operations [of ex_admin_no_timestamp 0 "''x''" "ReadMyRecord ''p1'' ''ehr''" ex_store]
  have d: "\<exists>e. run ex_admin_no_timestamp ex_store (ReadMyRecord ''p1'' ''ehr'') = Inl e"
    by simp
  show ?thesis
    using 1 2 3 4 6 a b c d by simp
qed

section \<open>The audit query\<close>

lemma audit_loop_wf:
  assumes "getAttributeValue ctx ''role'' = Some r"
  shows "list_all entry_wf (map snd rs) \<Longrightarrow>
         audit_loop ctx start endT results rs
           = Inr (results @ filter (entry_selected ctx start endT) (map snd rs))"
proof (induction rs arbitrary: results)
  case Nil
  then show ?case by simp
next
  case (Cons x rs)
  obtain k log where x: "x = (k, log)" by (cases x)
  from Cons.prems x have wf: "entry_wf log" and rest: "list_all entry_wf (map snd rs)"
    by simp_all
  from wf obtain fs where log: "log = JObj fs"
    by (cases log) (simp_all add: entry_wf_def)
  from wf log obtain tv where tv: "map_of fs ''timestamp'' = Some tv"
    by (cases "map_of fs ''timestamp''") (simp_all add: entry_wf_def)
  from wf log tv obtain t where t: "map_of fs ''timestamp'' = Some (JNum t)"
    by (cases tv) (simp_all add: entry_wf_def)
  from wf log t obtain dv where dv: "map_of fs ''details'' = Some dv"
    by (cases "map_of fs ''details''") (simp_all add: entry_wf_def)
  from wf log t dv obtain ds where ds: "map_of fs ''details'' = Some (JObj ds)"
    by (cases dv) (simp_all add: entry_wf_def)
  have p: "map_of ds ''patientId'' = None \<or> (\<exists>p. map_of ds ''patientId'' = Some (JStr p))"
  proof (cases "map_of ds ''patientId''")
    case None
    then show ?thesis by simp
  next
    case (Some pv)
    with wf log t ds show ?thesis
      by (cases pv) (simp_all add: entry_wf_def)
  qed
  have ts: "entry_timestamp (JObj fs) = t"
    by (simp add: entry_timestamp_def t)
  have vis: "log_visible ctx (JObj fs)
      = Inr (r = ''admin'' \<or> (entry_patientId (JObj fs) \<noteq> []
                \<and> str_includes (getID ctx) (entry_patientId (JObj fs))))"
    using p by (auto simp: log_visible_def getAttr_def assms ds entry_patientId_def)
  have step: "audit_loop ctx start endT results ((k, log) # rs)
      = audit_loop ctx start endT
          (if entry_selected ctx start endT log then results @ [log] else results) rs"
    unfolding log
    by (simp add: t ts vis js_ge_def js_le_def entry_selected_def assms)
  show ?case
    unfolding x step by (simp add: Cons.IH [OF rest])
qed

text \<open>
  C6 as stated takes the range from the arguments. The bounds are
  \<^verbatim>\<open>parseInt(startTime) || 0\<close> and \<^verbatim>\<open>parseInt(endTime) || Date.now()\<close>: an end time
  \<^verbatim>\<open>"0"\<close> is replaced by the clock, and the query for the range from 0 to 0 returns
  the entries of timestamp 5 and 7.
\<close>

theorem C6_counterexample:
  "getAttributeValue ex_admin ''role'' = Some ''admin'' \<and> getChannelID ex_admin = ''audit-channel''
   \<and> getState ex_audit_store (createCompositeKey ''audit'' [''tx8'']) = Some (ex_entry 5 ''p1'')
   \<and> get_prop (ex_entry 5 ''p1'') ''timestamp'' = Inr (Some (JNum 5))
   \<and> parseInt ''0'' = Some 0
   \<and> \<not> ((0::int) \<le> 5 \<and> (5::int) \<le> 0)
   \<and> getAuditLogs ex_admin ex_audit_store ''0'' ''0'' = Inr (JArr [ex_entry 5 ''p1'', ex_entry 7 ''p2''])"
  by code_simp

text \<open>
  C6, amended. \<^verbatim>\<open>getAuditLogs\<close> fails with an access-denied error unless the
  caller's role is admin or patient and the channel is the audit channel. Otherwise,
  on well-formed audit entries, it returns exactly the entries, in key order, whose
  timestamp lies between \<open>start\<close> and \<open>end\<close>, where \<open>start\<close> is
  \<^verbatim>\<open>parseInt(startTime)\<close>, or 0 when that is \<^verbatim>\<open>NaN\<close>, and \<open>end\<close> is
  \<^verbatim>\<open>parseInt(endTime)\<close>, or the clock when that is \<^verbatim>\<open>NaN\<close> or 0; an admin
  receives each of them, a patient those whose \<^verbatim>\<open>details.patientId\<close> is a non-empty
  substring of the caller's identifier.
\<close>

theorem C6_audit_query:
  "(\<not> (getAttributeValue ctx ''role'' \<in> {Some ''admin'', Some ''patient''}
        \<and> getChannelID ctx = ''audit-channel'') \<longrightarrow>
      (\<exists>e. getAuditLogs ctx s startTime endTime = Inl e \<and> is_access_denied e))
   \<and> (getAttributeValue ctx ''role'' \<in> {Some ''admin'', Some ''patient''}
        \<and> getChannelID ctx = ''audit-channel''
        \<and> list_all entry_wf (map snd (getStateByPartialCompositeKey s ''audit'' [])) \<longrightarrow>
      getAuditLogs ctx s startTime endTime
        = Inr (JArr (filter (entry_selected ctx (parseInt_or startTime 0) (parseInt_or endTime (date_now ctx)))
                       (map snd (getStateByPartialCompositeKey s ''audit'' [])))))"
proof (intro conjI impI)
  assume n: "\<not> (getAttributeValue ctx ''role'' \<in> {Some ''admin'', Some ''patient''}
        \<and> getChannelID ctx = ''audit-channel'')"
  show "\<exists>e. getAuditLogs ctx s startTime endTime = Inl e \<and> is_access_denied e"
  proof (cases "requireRole ctx [''admin'', ''patient'']")
    case (Inl e)
    then show ?thesis
      by (auto simp: getAuditLogs_def dest: requireRole_denied)
  next
    case (Inr r)
    then have "getAttributeValue ctx ''role'' \<in> {Some ''admin'', Some ''patient''}"
      by (auto simp: requireRole_def split: option.splits if_splits)
    with n have "getChannelID ctx \<noteq> ''audit-channel''" by blast
    then show ?thesis using Inr
      by (simp add: getAuditLogs_def)
  qed
next
  assume a: "getAttributeValue ctx ''role'' \<in> {Some ''admin'', Some ''patient''}
        \<and> getChannelID ctx = ''audit-channel''
        \<and> list_all entry_wf (map snd (getStateByPartialCompositeKey s ''audit'' []))"
  then obtain r where r: "getAttributeValue ctx ''role'' = Some r" and rr: "r = ''admin'' \<or> r = ''patient''"
    by auto
  have q: "requireRole ctx [''admin'', ''patient''] = Inr r"
    using r rr by (auto simp: requireRole_def)
  show "getAuditLogs ctx s startTime endTime
        = Inr (JArr (filter (entry_selected ctx (parseInt_or startTime 0) (parseInt_or endTime (date_now ctx)))
                       (map snd (getStateByPartialCompositeKey s ''audit'' []))))"
    using a by (simp add: getAuditLogs_def q audit_loop_wf [OF r])
qed

theorem C6_audit_query_witness:
  "getAttributeValue ex_patient_audit ''role'' \<in> {Some ''admin'', Some ''patient''}
   \<and> getChannelID ex_patient_audit = ''audit-channel''
   \<and> list_all entry_wf (map snd (getStateByPartialCompositeKey ex_audit_store ''audit'' []))
   \<and> getAuditLogs ex_patient_audit ex_audit_store ''1'' ''6'' = Inr (JArr [ex_entry 5 ''p1''])
   \<and> getAuditLogs ex_admin ex_audit_store ''6'' ''9'' = Inr (JArr [ex_entry 7 ''p2''])
   \<and> \<not> (getAttributeValue ex_doctor ''role'' \<in> {Some ''admin'', Some ''patient''}
          \<and> getChannelID ex_doctor = ''audit-channel'')
   \<and> (\<exists>e. getAuditLogs ex_doctor ex_audit_store ''1'' ''6'' = Inl e \<and> is_access_denied e)"
proof -
  have 1: "getAttributeValue ex_patient_audit ''role'' \<in> {Some ''admin'', Some ''patient''}
            \<and> getChannelID ex_patient_audit = ''audit-channel''"
    by (simp add: ex_patient_audit_def caller_def)
  have 2: "list_all entry_wf (map snd (getStateByPartialCompositeKey ex_audit_store ''audit'' []))"
    by code_simp
  have 3: "getAuditLogs ex_patient_audit ex_audit_store ''1'' ''6'' = Inr (JArr [ex_entry 5 ''p1''])"
    by code_simp
  have 4: "getAuditLogs ex_admin ex_audit_store ''6'' ''9'' = Inr (JArr [ex_entry 7 ''p2''])"
    by code_simp
  have 5: "\<not> (getAttributeValue ex_doctor ''role'' \<in> {Some ''admin'', Some ''patient''}
          \<and> getChannelID ex_doctor = ''audit-channel'')"
    by (simp add: ex_doctor_def caller_def)
  show ?thesis
    using 1 2 3 4 5
      C6_audit_query [of ex_patient_audit ex_audit_store "''1''" "''6''"]
      C6_audit_query [of ex_doctor ex_audit_store "''1''" "''6''"]
    by blast
qed

section \<open>Grant, read, revoke\<close>

text \<open>
  Under the invariant, the scan below the full triple of a policy key yields the policy
  stored under that key and nothing else.
\<close>

lemma filter_key_distinct:
  "distinct (map fst s) \<Longrightarrow>
   filter (\<lambda>(k, v). k = k0) s = (case map_of s k0 of None \<Rightarrow> [] | Some v \<Rightarrow> [(k0, v)])"
proof (induction s)
  case Nil
  then show ?case by simp
next
  case (Cons x s)
  obtain k v where x: "x = (k, v)" by (cases x)
  show ?case
  proof (cases "k = k0")
    case True
    with Cons.prems x have "k0 \<notin> fst ` set s" by simp
    then have "map_of s k0 = None" by (simp add: map_of_eq_None_iff)
    with Cons x True show ?thesis by simp
  next
    case False
    with Cons x show ?thesis by simp
  qed
qed

lemma scan_policy_triple:
  assumes "store_inv s"
  shows "getStateByPartialCompositeKey s ''policy'' [a, b, c]
         = (case getState s (createCompositeKey ''policy'' [a, b, c]) of
              None \<Rightarrow> []
            | Some v \<Rightarrow> [(createCompositeKey ''policy'' [a, b, c], v)])"
proof -
  have eq: "(fst k = ''policy'' \<and> prefix [a, b, c] (snd k)) = (k = (''policy'', [a, b, c]))"
    if kv: "(k, v) \<in> set s" for k v
  proof -
    obtain ot as where k: "k = (ot, as)" by (cases k)
    have "list_all (\<lambda>k. if fst k = ''policy'' then length (snd k) = 3 else True) (map fst s)"
      using assms by (simp add: store_inv_def policy_keys_wf_def)
    then have "if fst k = ''policy'' then length (snd k) = 3 else True"
      using kv by (force simp: list_all_iff)
    then have len: "ot = ''policy'' \<Longrightarrow> length as = 3"
      by (simp add: k)
    show ?thesis
    proof (cases "ot = ''policy''")
      case True
      then have "length as = 3" by (rule len)
      then have "prefix [a, b, c] as = (as = [a, b, c])"
        by (auto simp: prefix_def)
      then show ?thesis using True by (simp add: k)
    next
      case False
      then show ?thesis by (auto simp: k)
    qed
  qed
  have "filter (\<lambda>(k, v). fst k = ''policy'' \<and> prefix [a, b, c] (snd k)) s
        = filter (\<lambda>(k, v). k = (''policy'', [a, b, c])) s"
  proof (rule filter_cong)
    show "s = s" by (rule refl)
  next
    fix x assume x: "x \<in> set s"
    obtain k v where kv: "x = (k, v)" by (cases x)
    show "(case x of (k, v) \<Rightarrow> fst k = ''policy'' \<and> prefix [a, b, c] (snd k))
          = (case x of (k, v) \<Rightarrow> k = (''policy'', [a, b, c]))"
      using eq [of k v] x by (simp add: kv)
  qed
  also have "\<dots> = (case map_of s (''policy'', [a, b, c]) of None \<Rightarrow> []
                     | Some v \<Rightarrow> [((''policy'', [a, b, c]), v)])"
    using assms by (simp add: filter_key_distinct store_inv_def distinct_keys_def)
  finally show ?thesis
    by (simp add: getStateByPartialCompositeKey_def getState_def createCompositeKey_def
          split: option.splits)
qed

lemma store_inv_putState:
  assumes "store_inv s" and "fst k = ''policy'' \<longrightarrow> length (snd k) = 3"
  shows "store_inv (putState s k v)"
  using assms
  by (auto simp: store_inv_def distinct_keys_def policy_keys_wf_def putState_def distinct_update
        update_keys list_all_iff)

lemma store_inv_deleteState:
  assumes "store_inv s"
  shows "store_inv (deleteState s k)"
  using assms
  by (auto simp: store_inv_def distinct_keys_def policy_keys_wf_def deleteState_def distinct_delete
        delete_keys list_all_iff distinct_removeAll)

lemma logAudit_inv:
  assumes "logAudit ctx s action details = Inr s'" and "store_inv s"
  shows "store_inv s'"
  using assms
  by (auto simp: logAudit_def createCompositeKey_def intro: store_inv_putState
        split: if_splits option.splits)

lemma logAudit_getState:
  assumes "logAudit ctx s action details = Inr s'" and "fst k \<noteq> ''audit''"
  shows "getState s' k = getState s k"
  using assms
  by (auto simp: logAudit_def createCompositeKey_def getState_putState
        split: if_splits option.splits)

lemma grantAccess_no_expiry:
  assumes "grantAccess pctx s patientId role dataType permissions [] = Inr (g, s1)"
    and "store_inv s"
  shows "store_inv s1
         \<and> getState s1 (createCompositeKey ''policy'' [patientId, role, dataType])
             = Some (granted_policy patientId role dataType permissions)"
proof -
  let ?pk = "createCompositeKey ''policy'' [patientId, role, dataType]"
  let ?p = "granted_policy patientId role dataType permissions"
  from assms(1) obtain a d where la: "logAudit pctx (writeState s ?pk ?p) a d = Inr s1"
    by (auto simp: grantAccess_def andThen_eq_Inr Let_def policy_expiry_def granted_policy_def
          split: if_splits)
  have inv: "store_inv (writeState s ?pk ?p)"
    using assms(2) by (simp add: writeState_def createCompositeKey_def store_inv_putState)
  have "getState s1 ?pk = getState (writeState s ?pk ?p) ?pk"
    using la by (rule logAudit_getState) (simp add: createCompositeKey_def)
  then show ?thesis
    using logAudit_inv [OF la inv] by (simp add: writeState_def getState_putState)
qed

lemma revokeAccess_removes:
  assumes "revokeAccess pctx s1 patientId role dataType = Inr (v, s2)"
    and "store_inv s1"
  shows "store_inv s2
         \<and> getState s2 (createCompositeKey ''policy'' [patientId, role, dataType]) = None"
proof -
  let ?pk = "createCompositeKey ''policy'' [patientId, role, dataType]"
  from assms(1) obtain a d where la: "logAudit pctx (deleteState s1 ?pk) a d = Inr s2"
    by (auto simp: revokeAccess_def andThen_eq_Inr Let_def split: if_splits)
  have inv: "store_inv (deleteState s1 ?pk)"
    using assms(2) by (rule store_inv_deleteState)
  have "getState s2 ?pk = getState (deleteState s1 ?pk) ?pk"
    using la by (rule logAudit_getState) (simp add: createCompositeKey_def)
  then show ?thesis
    using logAudit_inv [OF la inv] by (simp add: getState_deleteState)
qed

lemma granted_policy_applies:
  assumes "permission \<in> set (permissionArray permissions)"
  shows "policy_applies ctx (granted_policy patientId role dataType permissions) permission = Inr True"
  using assms by (simp add: policy_applies_def granted_policy_def)

lemma gated_record_passes:
  assumes "getState s (createCompositeKey dataType [patientId]) = Some record"
    and "get_prop record ''hospitalID'' = Inr (Some (JStr h))"
    and "get_prop record ''sensitivity'' \<noteq> Inr (Some (JStr ''high''))
         \<or> getAttributeValue ctx ''clearance'' = Some ''high''"
  shows "gated_record ctx s patientId dataType h = Inr record"
proof -
  obtain fs where fs: "record = JObj fs"
    using assms(2) by (cases "record") simp_all
  show ?thesis
    using assms
    by (auto simp: gated_record_def readState_def assertEquals_def getAttr_def fs
          split: option.splits)
qed

text \<open>
  C4. The patient grants a role a permission on a data type, without expiry. With the
  target record stored, of the caller's hospital and within the caller's clearance, the
  delegated check of a caller of that role returns the record. After the patient
  revokes the same triple, the identical check fails with the access-denied error
  \<open>no_access\<close>. For the role doctor and the permission read, the same holds of
  \<^verbatim>\<open>readPatientRecord\<close> when its audit step can run.
\<close>

theorem C4_grant_then_revoke:
  assumes "store_inv s"
    and "grantAccess pctx s patientId role dataType permissions [] = Inr (g, s1)"
    and "permission \<in> set (permissionArray permissions)"
    and "getAttributeValue rctx ''role'' = Some role"
    and "getAttributeValue rctx ''hospitalID'' = Some h"
    and "getState s1 (createCompositeKey dataType [patientId]) = Some record"
    and "get_prop record ''hospitalID'' = Inr (Some (JStr h))"
    and "get_prop record ''sensitivity'' \<noteq> Inr (Some (JStr ''high''))
         \<or> getAttributeValue rctx ''clearance'' = Some ''high''"
    and "revokeAccess pctx2 s1 patientId role dataType = Inr (v, s2)"
  shows "checkAccessPolicy rctx s1 patientId dataType permission = Inr record
         \<and> checkAccessPolicy rctx s2 patientId dataType permission
             = Inl (no_access rctx permission role dataType patientId)
         \<and> is_access_denied (no_access rctx permission role dataType patientId)
         \<and> (role = ''doctor'' \<and> permission = ''read''
              \<and> (getChannelID rctx \<noteq> ''audit-channel'' \<or> getTxTimestamp rctx \<noteq> None) \<longrightarrow>
            (\<exists>s'. doctor_readPatientRecord rctx s1 patientId dataType = Inr (record, s'))
            \<and> (\<exists>e. doctor_readPatientRecord rctx s2 patientId dataType = Inl e \<and> is_access_denied e))"
proof -
  let ?pk = "createCompositeKey ''policy'' [patientId, role, dataType]"
  let ?p = "granted_policy patientId role dataType permissions"
  from grantAccess_no_expiry [OF assms(2) assms(1)]
  have inv1: "store_inv s1" and p1: "getState s1 ?pk = Some ?p" by simp_all
  from revokeAccess_removes [OF assms(9) inv1]
  have inv2: "store_inv s2" and p2: "getState s2 ?pk = None" by simp_all
  have scan1: "getStateByPartialCompositeKey s1 ''policy'' [patientId, role, dataType] = [(?pk, ?p)]"
    by (simp add: scan_policy_triple [OF inv1] p1)
  have scan2: "getStateByPartialCompositeKey s2 ''policy'' [patientId, role, dataType] = []"
    by (simp add: scan_policy_triple [OF inv2] p2)
  have gate: "gated_record rctx s1 patientId dataType h = Inr record"
    using assms(6) assms(7) assms(8) by (rule gated_record_passes)
  have r1: "checkAccessPolicy rctx s1 patientId dataType permission = Inr record"
    by (simp add: checkAccessPolicy_def checkAccessPolicy_run_def getAttr_def assms(4) assms(5)
          scan1 granted_policy_applies [OF assms(3)] gate)
  have r2: "checkAccessPolicy rctx s2 patientId dataType permission
             = Inl (no_access rctx permission role dataType patientId)"
    by (simp add: checkAccessPolicy_def checkAccessPolicy_run_def getAttr_def assms(4) assms(5) scan2)
  have d: "is_access_denied (no_access rctx permission role dataType patientId)"
    by (simp add: no_access_def is_access_denied_def)
  have doc: "role = ''doctor'' \<and> permission = ''read''
              \<and> (getChannelID rctx \<noteq> ''audit-channel'' \<or> getTxTimestamp rctx \<noteq> None) \<longrightarrow>
            (\<exists>s'. doctor_readPatientRecord rctx s1 patientId dataType = Inr (record, s'))
            \<and> (\<exists>e. doctor_readPatientRecord rctx s2 patientId dataType = Inl e \<and> is_access_denied e)"
  proof (intro impI)
    assume a: "role = ''doctor'' \<and> permission = ''read''
              \<and> (getChannelID rctx \<noteq> ''audit-channel'' \<or> getTxTimestamp rctx \<noteq> None)"
    then have rr: "requireRole rctx [''doctor''] = Inr ''doctor''"
      using assms(4) by (simp add: requireRole_def)
    have "\<exists>s'. logAudit rctx s1 ''readPatientRecord''
                 (JObj [(''patientId'', JStr patientId), (''dataType'', JStr dataType),
                        (''doctorId'', JStr (getID rctx))]) = Inr s'"
      using a by (auto simp: logAudit_def)
    then obtain s' where l: "logAudit rctx s1 ''readPatientRecord''
                 (JObj [(''patientId'', JStr patientId), (''dataType'', JStr dataType),
                        (''doctorId'', JStr (getID rctx))]) = Inr s'"
      by blast
    have ok: "doctor_readPatientRecord rctx s1 patientId dataType = Inr (record, s')"
      using a r1 rr l by (simp add: doctor_readPatientRecord_def)
    have ko: "doctor_readPatientRecord rctx s2 patientId dataType
                = Inl (no_access rctx permission role dataType patientId)"
      using a r2 rr by (simp add: doctor_readPatientRecord_def)
    show "(\<exists>s'. doctor_readPatientRecord rctx s1 patientId dataType = Inr (record, s'))
            \<and> (\<exists>e. doctor_readPatientRecord rctx s2 patientId dataType = Inl e \<and> is_access_denied e)"
      using ok ko d by blast
  qed
  show ?thesis
    using r1 r2 d doc by blast
qed

theorem C4_grant_then_revoke_witness:
  "store_inv ex_store
   \<and> grantAccess ex_patient ex_store ''p1'' ''doctor'' ''ehr'' ''read'' []
       = Inr (success ''Access policy created for doctor on ehr'', ex_granted JNull)
   \<and> ''read'' \<in> set (permissionArray ''read'')
   \<and> getAttributeValue ex_doctor ''role'' = Some ''doctor''
   \<and> getAttributeValue ex_doctor ''hospitalID'' = Some ''H1''
   \<and> getState (ex_granted JNull) (createCompositeKey ''ehr'' [''p1'']) = Some ex_record
   \<and> get_prop ex_record ''hospitalID'' = Inr (Some (JStr ''H1''))
   \<and> get_prop ex_record ''sensitivity'' \<noteq> Inr (Some (JStr ''high''))
   \<and> revokeAccess ex_patient (ex_granted JNull) ''p1'' ''doctor'' ''ehr''
       = Inr (success ''Access policy for doctor on ehr revoked'', ex_store)
   \<and> checkAccessPolicy ex_doctor (ex_granted JNull) ''p1'' ''ehr'' ''read'' = Inr ex_record
   \<and> checkAccessPolicy ex_doctor ex_store ''p1'' ''ehr'' ''read''
       = Inl (no_access ex_doctor ''read'' ''doctor'' ''ehr'' ''p1'')
   \<and> (\<exists>s'. doctor_readPatientRecord ex_doctor (ex_granted JNull) ''p1'' ''ehr'' = Inr (ex_record, s'))
   \<and> (\<exists>e. doctor_readPatientRecord ex_doctor ex_store ''p1'' ''ehr'' = Inl e \<and> is_access_denied e)"
proof -
  have 1: "store_inv ex_store"
    by code_simp
  have 2: "grantAccess ex_patient ex_store ''p1'' ''doctor'' ''ehr'' ''read'' []
       = Inr (success ''Access policy created for doctor on ehr'', ex_granted JNull)"
    by code_simp
  have 3: "''read'' \<in> set (permissionArray ''read'')"
    by code_simp
  have 4: "getAttributeValue ex_doctor ''role'' = Some ''doctor''"
    by (simp add: ex_doctor_def caller_def)
  have 5: "getAttributeValue ex_doctor ''hospitalID'' = Some ''H1''"
    by (simp add: ex_doctor_def caller_def)
  have 6: "getState (ex_granted JNull) (createCompositeKey ''ehr'' [''p1'']) = Some ex_record"
    by code_simp
  have 7: "get_prop ex_record ''hospitalID'' = Inr (Some (JStr ''H1''))"
    by code_simp
  have 8: "get_prop ex_record ''sensitivity'' \<noteq> Inr (Some (JStr ''high''))"
    by (simp add: ex_record_def)
  have 9: "revokeAccess ex_patient (ex_granted JNull) ''p1'' ''doctor'' ''ehr''
       = Inr (success ''Access policy for doctor on ehr revoked'', ex_store)"
    by code_simp
  have c: "getChannelID ex_doctor \<noteq> ''audit-channel''"
    by (simp add: ex_doctor_def caller_def)
  show ?thesis
    using 1 2 3 4 5 6 7 8 9 c
      C4_grant_then_revoke [OF 1 2 3 4 5 6 7 disjI1 [OF 8] 9]
    by blast
qed

text \<open>The invariant holds of the empty ledger and is kept by every operation that writes.\<close>

lemma store_inv_empty: "store_inv []"
  by (simp add: store_inv_def distinct_keys_def policy_keys_wf_def)

lemma store_inv_overwrite:
  assumes "store_inv s" and "getState s k = Some x"
  shows "store_inv (putState s k v)"
proof -
  have "k \<in> set (map fst s)"
    using assms(2) by (auto simp: getState_def dest: map_of_SomeD intro: rev_image_eqI)
  then have "map fst (putState s k v) = map fst s"
    by (simp add: putState_def update_keys)
  then show ?thesis
    using assms(1) by (simp add: store_inv_def distinct_keys_def policy_keys_wf_def)
qed

lemma checkAccessPolicy_record:
  assumes "checkAccessPolicy ctx s patientId dataType permission = Inr r"
  shows "getState s (createCompositeKey dataType [patientId]) = Some r"
proof -
  have loop: "policy_loop ctx s patientId dataType permission h rs = (Inr (Some r), it)
      \<Longrightarrow> gated_record ctx s patientId dataType h = Inr r" for h rs it
  proof (induction rs)
    case Nil
    then show ?case by simp
  next
    case (Cons x rs)
    obtain k p where x: "x = (k, p)" by (cases x)
    from Cons show ?case
      by (auto simp: x split: sum.splits bool.splits)
  qed
  from assms obtain h rs it where
    "policy_loop ctx s patientId dataType permission h rs = (Inr (Some r), it)"
    by (auto simp: checkAccessPolicy_def checkAccessPolicy_run_def
          split: sum.splits prod.splits option.splits)
  then have "gated_record ctx s patientId dataType h = Inr r"
    by (rule loop)
  then show ?thesis
    by (auto simp: gated_record_def readState_def andThen_eq_Inr split: option.splits if_splits)
qed

lemma store_inv_write_audit:
  assumes "logAudit ctx (writeState s k d) a dd = Inr s'"
    and "store_inv s"
    and "getState s k \<noteq> None \<or> fst k \<noteq> ''policy'' \<or> length (snd k) = 3"
  shows "store_inv s'"
proof -
  have "store_inv (writeState s k d)"
  proof (cases "getState s k")
    case None
    with assms(3) have "fst k = ''policy'' \<longrightarrow> length (snd k) = 3" by blast
    with assms(2) show ?thesis
      unfolding writeState_def by (rule store_inv_putState)
  next
    case (Some x)
    with assms(2) show ?thesis
      unfolding writeState_def by (rule store_inv_overwrite)
  qed
  with assms(1) show ?thesis by (rule logAudit_inv)
qed

lemma createPatient_inv:
  assumes "createPatient ctx s patientId hospitalID payload = Inr (res, s')" and "store_inv s"
  shows "store_inv s'"
proof -
  from assms(1) obtain d a dd where
    "logAudit ctx (writeState s (createCompositeKey ''ehr'' [patientId]) d) a dd = Inr s'"
    by (auto simp: createPatient_def andThen_eq_Inr Let_def split: option.splits)
  then show ?thesis
    using assms(2) by (rule store_inv_write_audit) (simp add: createCompositeKey_def)
qed

lemma updateMyRecord_inv:
  assumes "updateMyRecord ctx s patientId dataType payload = Inr (res, s')" and "store_inv s"
  shows "store_inv s'"
proof -
  from assms(1) obtain d a dd x where
    "logAudit ctx (writeState s (createCompositeKey dataType [patientId]) d) a dd = Inr s'"
    and "readState s (createCompositeKey dataType [patientId]) = Inr x"
    by (auto simp: updateMyRecord_def andThen_eq_Inr Let_def split: if_splits)
  then show ?thesis
    using assms(2)
    by (intro store_inv_write_audit [of ctx s _ d a dd s'])
       (auto simp: readState_def split: option.splits)
qed

lemma grantAccess_inv:
  assumes "grantAccess ctx s patientId role dataType permissions expiry = Inr (res, s')"
    and "store_inv s"
  shows "store_inv s'"
proof -
  from assms(1) obtain d a dd where
    "logAudit ctx (writeState s (createCompositeKey ''policy'' [patientId, role, dataType]) d) a dd
       = Inr s'"
    by (auto simp: grantAccess_def andThen_eq_Inr Let_def split: if_splits)
  then show ?thesis
    using assms(2) by (rule store_inv_write_audit) (simp add: createCompositeKey_def)
qed

lemma updatePatientRecord_inv:
  assumes "updatePatientRecord ctx s patientId dataType payload = Inr (res, s')" and "store_inv s"
  shows "store_inv s'"
proof -
  from assms(1) obtain d a dd x where
    "logAudit ctx (writeState s (createCompositeKey dataType [patientId]) d) a dd = Inr s'"
    and "checkAccessPolicy ctx s patientId dataType ''write'' = Inr x"
    by (auto simp: updatePatientRecord_def andThen_eq_Inr Let_def)
  then show ?thesis
    using assms(2)
    by (intro store_inv_write_audit [of ctx s _ d a dd s'])
       (auto dest: checkAccessPolicy_record)
qed

lemma createLabReport_inv:
  assumes "createLabReport ctx s patientId labId payload = Inr (res, s')" and "store_inv s"
  shows "store_inv s'"
proof -
  from assms(1) obtain d a dd where
    "logAudit ctx (writeState s (createCompositeKey ''lab'' [patientId, labId]) d) a dd = Inr s'"
    by (auto simp: createLabReport_def andThen_eq_Inr Let_def split: option.splits)
  then show ?thesis
    using assms(2) by (rule store_inv_write_audit) (simp add: createCompositeKey_def)
qed

lemma deletePatient_inv:
  assumes "deletePatient ctx s patientId = Inr (res, s')" and "store_inv s"
  shows "store_inv s'"
proof -
  from assms(1) obtain a dd where
    "logAudit ctx (deleteState s (createCompositeKey ''ehr'' [patientId])) a dd = Inr s'"
    by (auto simp: deletePatient_def andThen_eq_Inr Let_def)
  then show ?thesis
    using store_inv_deleteState [OF assms(2)] by (rule logAudit_inv)
qed

lemma createPrescription_inv:
  assumes "createPrescription ctx s patientId prescriptionId payload = Inr (res, s')"
    and "store_inv s"
  shows "store_inv s'"
proof -
  from assms(1) obtain d a dd where
    "logAudit ctx (writeState s (createCompositeKey ''prescription'' [patientId, prescriptionId]) d)
       a dd = Inr s'"
    by (auto simp: createPrescription_def andThen_eq_Inr Let_def split: option.splits)
  then show ?thesis
    using assms(2) by (rule store_inv_write_audit) (simp add: createCompositeKey_def)
qed

lemma updateInsuranceData_inv:
  assumes "updateInsuranceData ctx s patientId payload = Inr (res, s')" and "store_inv s"
  shows "store_inv s'"
proof -
  from assms(1) obtain d a dd x where
    "logAudit ctx (writeState s (createCompositeKey ''insurance'' [patientId]) d) a dd = Inr s'"
    and "checkAccessPolicy ctx s patientId ''insurance'' ''write'' = Inr x"
    by (auto simp: updateInsuranceData_def andThen_eq_Inr Let_def split: if_splits)
  then show ?thesis
    using assms(2)
    by (intro store_inv_write_audit [of ctx s _ d a dd s'])
       (auto dest: checkAccessPolicy_record)
qed

section \<open>Expiry of delegation policies\<close>

text \<open>
  A policy with a numeric expiry other than zero that is not after the clock does not
  apply; one with expiry zero and the permission applies at every clock value.
\<close>

lemma expired_policy_not_applied:
  assumes "get_prop policy ''expiry'' = Inr (Some (JNum e))" and "e \<noteq> 0" and "e \<le> date_now ctx"
  shows "policy_applies ctx policy permission \<noteq> Inr True"
  using assms
  by (auto simp: policy_applies_def andThen_def js_gt_def split: sum.splits)

lemma zero_expiry_never_expires:
  assumes "get_prop policy ''expiry'' = Inr (Some (JNum 0))"
    and "get_prop policy ''permissions'' = Inr (Some (JArr ps))" and "JStr permission \<in> set ps"
  shows "policy_applies ctx policy permission = Inr True"
  using assms by (simp add: policy_applies_def)

text \<open>
  C3. A stored policy whose expiry is set and is not greater than the current time
  should never grant access. The loop tests \<^verbatim>\<open>!policy.expiry || policy.expiry > Date.now()\<close>,
  and the number zero is falsy: the patient \<open>p1\<close> grants with expiry \<^verbatim>\<open>"0"\<close>,
  \<^verbatim>\<open>grantAccess\<close> stores the expiry \<open>0\<close>, which is not greater than the clock of the
  doctor's invocation, and the delegated check returns the record.
\<close>

theorem C3_expiry_zero_grants:
  "grantAccess ex_patient ex_store ''p1'' ''doctor'' ''ehr'' ''read'' ''0''
     = Inr (success ''Access policy created for doctor on ehr'', ex_granted (JNum 0))
   \<and> 0 \<le> date_now ex_doctor
   \<and> checkAccessPolicy ex_doctor (ex_granted (JNum 0)) ''p1'' ''ehr'' ''read'' = Inr ex_record"
  by code_simp

section \<open>Immutability of the hospital of a record\<close>

text \<open>The merge of the doctor's and the insurer's update keeps the hospitalID.\<close>

lemma set_prop_object:
  "\<exists>gs. set_prop (JObj fs) p v = Inr (JObj gs) \<and> map_of gs = (map_of fs)(p := v)"
  by (cases v) (auto simp: update_conv' delete_conv')

lemma set_prop_twice:
  assumes "set_prop (JObj fs) ''hospitalID'' h = Inr d1"
    and "set_prop d1 ''sensitivity'' v = Inr d2"
  shows "get_prop d2 ''hospitalID'' = Inr h"
proof -
  from set_prop_object [of fs "''hospitalID''" h] assms(1)
  obtain gs where d1: "d1 = JObj gs" and gs: "map_of gs = (map_of fs)(''hospitalID'' := h)"
    by auto
  from set_prop_object [of gs "''sensitivity''" v] assms(2) d1
  obtain hs where d2: "d2 = JObj hs" and hs: "map_of hs = (map_of gs)(''sensitivity'' := v)"
    by auto
  show ?thesis
    by (simp add: d2 hs gs)
qed

lemma mergedRecord_hospitalID:
  assumes "mergedRecord existingRecord updatedData field = Inr merged"
  shows "get_prop merged ''hospitalID'' = get_prop existingRecord ''hospitalID''"
proof -
  from assms obtain u m0 h m1 v where
      m0: "set_prop (JObj (spread existingRecord)) field u = Inr m0"
    and h: "get_prop existingRecord ''hospitalID'' = Inr h"
    and m1: "set_prop m0 ''hospitalID'' h = Inr m1"
    and m: "set_prop m1 ''sensitivity'' v = Inr merged"
    by (auto simp: mergedRecord_def andThen_eq_Inr)
  from set_prop_object [of "spread existingRecord" field u] m0
  obtain gs where "m0 = JObj gs" by auto
  with m1 m have "get_prop merged ''hospitalID'' = Inr h"
    by (auto intro: set_prop_twice)
  with h show ?thesis by simp
qed

text \<open>So does the patient's update when the payload is a JSON object.\<close>

lemma updateMyRecord_object_payload:
  assumes "updateMyRecord ctx s patientId dataType (Some (JObj fs)) = Inr (res, s')"
    and "getState s (createCompositeKey dataType [patientId]) = Some existingRecord"
    and "getChannelID ctx \<noteq> ''audit-channel''"
  shows "\<exists>written. getState s' (createCompositeKey dataType [patientId]) = Some written
           \<and> get_prop written ''hospitalID'' = get_prop existingRecord ''hospitalID''"
proof -
  from assms(1) assms(2) obtain h d1 v d2 where
      h: "get_prop existingRecord ''hospitalID'' = Inr h"
    and d1: "set_prop (JObj fs) ''hospitalID'' h = Inr d1"
    and d2: "set_prop d1 ''sensitivity'' v = Inr d2"
    and s': "logAudit ctx (writeState s (createCompositeKey dataType [patientId]) d2)
               ''updateMyRecord''
               (JObj [(''patientId'', JStr patientId), (''dataType'', JStr dataType)]) = Inr s'"
    by (auto simp: updateMyRecord_def andThen_eq_Inr Let_def readState_def JSON_parse_def
          split: if_splits)
  from d1 d2 have w: "get_prop d2 ''hospitalID'' = Inr h"
    by (rule set_prop_twice)
  from s' assms(3) have "s' = writeState s (createCompositeKey dataType [patientId]) d2"
    by (simp add: logAudit_def)
  then have "getState s' (createCompositeKey dataType [patientId]) = Some d2"
    by (simp add: writeState_def getState_putState)
  with w h show ?thesis by simp
qed

text \<open>
  C7. Every update should write back a record with the hospitalID of the stored one.
  \<^verbatim>\<open>updateMyRecord\<close> assigns \<^verbatim>\<open>updatedData.hospitalID = existingRecord.hospitalID\<close>
  on the parsed payload; when the payload is a JSON array the assignment is not
  serialised, and the record written under the key has no hospitalID any more.
\<close>

theorem C7_array_payload_loses_hospitalID:
  "getState ex_store (createCompositeKey ''ehr'' [''p1'']) = Some ex_record
   \<and> get_prop ex_record ''hospitalID'' = Inr (Some (JStr ''H1''))
   \<and> updateMyRecord ex_patient ex_store ''p1'' ''ehr'' (Some (JArr []))
       = Inr (success ''ehr for patient p1 updated'', [((''ehr'', [''p1'']), JArr [])])
   \<and> get_prop (JArr []) ''hospitalID'' = Inr None"
  by code_simp

section \<open>Release of the scan iterator\<close>

text \<open>The loop closes the iterator exactly when no policy applied and nothing was thrown.\<close>

lemma policy_loop_closed_iff:
  "snd (policy_loop ctx s patientId dataType permission h rs) = IteratorClosed
   \<longleftrightarrow> fst (policy_loop ctx s patientId dataType permission h rs) = Inr None"
proof (induction rs)
  case Nil
  then show ?case by simp
next
  case (Cons x rs)
  obtain k p where x: "x = (k, p)" by (cases x)
  show ?case
    using Cons.IH by (auto simp: x split: sum.splits bool.splits)
qed

text \<open>
  C10. The iterator of the policy scan should be closed on every exit path of
  \<^verbatim>\<open>_checkAccessPolicy\<close>. The only \<^verbatim>\<open>iterator.close()\<close> is under \<^verbatim>\<open>res.done\<close>:
  when a policy applies the loop leaves by \<^verbatim>\<open>break\<close>, or by the exception of the
  hospital check, with the iterator still open.
\<close>

theorem C10_iterator_left_open:
  "checkAccessPolicy_run ex_doctor (ex_granted JNull) ''p1'' ''ehr'' ''read''
     = (Inr ex_record, IteratorOpen)
   \<and> checkAccessPolicy_run
        (caller [(''role'', ''doctor''), (''hospitalID'', ''H2'')] ''x509::/CN=dr2::/CN=ca'' ''main-channel'')
        (ex_granted JNull) ''p1'' ''ehr'' ''read''
     = (Inl (Error ''Access denied: Record belongs to a different hospital''), IteratorOpen)"
  by code_simp

end
